theory Spec2Isabelle
  imports Complex_Main "HOL-Library.Char_ord" "HOL-Library.List_Lexorder" "HOL-Library.Multiset"
begin

text \<open>
  A model of \<^verbatim>\<open>run_compliance_check_semantic.py\<close>: the text utilities, the evaluation of
  one rule against a document text (\<^verbatim>\<open>evaluate_rule_semantic\<close>) and the loop of \<^verbatim>\<open>main\<close>
  over the rules. Exceptions are values of a sum type. The regular-expression library
  and the iteration order of sets belong to the interpreter; the model takes them as
  a parameter, so that the properties hold for every such library, and supplies one
  library for a fragment of the pattern syntax, on which concrete rules are run.
\<close>

section \<open>Strings\<close>

text \<open>
  Python \<^verbatim>\<open>str\<close> values are modelled as \<^typ>\<open>string\<close>. Case mapping, whitespace and the
  word characters are those of the ASCII range, where the model agrees with Python;
  documents with letters beyond ASCII are outside the model.
\<close>

definition ascii_lower :: "string" where
  "ascii_lower = ''abcdefghijklmnopqrstuvwxyz''"

definition ascii_upper :: "string" where
  "ascii_upper = ''ABCDEFGHIJKLMNOPQRSTUVWXYZ''"

definition ascii_digits :: "string" where
  "ascii_digits = ''0123456789''"

text \<open>\<^verbatim>\<open>c.lower()\<close> and \<^verbatim>\<open>c.upper()\<close> on one character.\<close>

definition lower_chr :: "char \<Rightarrow> char" where
  "lower_chr c = (case map_of (zip ascii_upper ascii_lower) c of None \<Rightarrow> c | Some d \<Rightarrow> d)"

definition upper_chr :: "char \<Rightarrow> char" where
  "upper_chr c = (case map_of (zip ascii_lower ascii_upper) c of None \<Rightarrow> c | Some d \<Rightarrow> d)"

definition lower :: "string \<Rightarrow> string" where
  "lower s = map lower_chr s"

definition upper :: "string \<Rightarrow> string" where
  "upper s = map upper_chr s"

text \<open>The characters \<^verbatim>\<open>str.isspace\<close> accepts: code points 9 to 13 and 28 to 32.\<close>

definition space_chars :: "string" where
  "space_chars = [CHR 0x09, CHR 0x0A, CHR 0x0B, CHR 0x0C, CHR 0x0D,
                  CHR 0x1C, CHR 0x1D, CHR 0x1E, CHR 0x1F, CHR 0x20]"

definition is_space :: "char \<Rightarrow> bool" where
  "is_space c = (c \<in> set space_chars)"

text \<open>\<^verbatim>\<open>s.strip()\<close>.\<close>

definition strip :: "string \<Rightarrow> string" where
  "strip s = rev (dropWhile is_space (rev (dropWhile is_space s)))"

text \<open>\<^verbatim>\<open>t[a:b]\<close> for indices \<open>0 \<le> a\<close> and \<open>0 \<le> b\<close>; empty when \<open>b \<le> a\<close>.\<close>

definition slice :: "'a list \<Rightarrow> nat \<Rightarrow> nat \<Rightarrow> 'a list" where
  "slice t a b = take (b - a) (drop a t)"

text \<open>\<^verbatim>\<open>sep.join(xs)\<close>.\<close>

fun join :: "string \<Rightarrow> string list \<Rightarrow> string" where
  "join sep [] = []"
| "join sep [x] = x"
| "join sep (x # y # ys) = x @ sep @ join sep (y # ys)"

text \<open>\<^verbatim>\<open>t.startswith(p)\<close> and the substring test \<^verbatim>\<open>p in t\<close>.\<close>

fun starts_with :: "string \<Rightarrow> string \<Rightarrow> bool" where
  "starts_with t [] = True"
| "starts_with [] (c # p) = False"
| "starts_with (d # t) (c # p) = (d = c \<and> starts_with t p)"

fun contains :: "string \<Rightarrow> string \<Rightarrow> bool" where
  "contains p [] = (p = [])"
| "contains p (c # t) = (starts_with (c # t) p \<or> contains p t)"

text \<open>
  \<^verbatim>\<open>s.replace("\\n", " ")\<close>: the two-character sequence backslash, \<open>n\<close> becomes one
  blank, left to right.
\<close>

fun replace_bsn :: "string \<Rightarrow> string" where
  "replace_bsn (a # b # cs) =
     (if a = CHR 0x5C \<and> b = CHR ''n'' then CHR '' '' # replace_bsn cs
      else a # replace_bsn (b # cs))"
| "replace_bsn cs = cs"

section \<open>Data model\<close>

datatype decision = FOUND | MISSING | CONFLICT | REVIEW

text \<open>
  The result dictionary of \<^verbatim>\<open>evaluate_rule_semantic\<close>. The confidence is a Python float
  in the source; the model computes the same expressions over the rationals, and has
  the exception of the one float operation of the source that can raise, the
  conversion of an int.
\<close>

record outcome =
  decision :: decision
  matched_positive :: "string list"
  matched_forbidden :: "string list"
  matched_pattern :: string
  confidence :: rat
  "notes" :: string

text \<open>The exceptions evaluation can raise: \<^verbatim>\<open>re.error\<close> with the pattern it was given,
  the exceptions of \<^verbatim>\<open>int()\<close>, and the OverflowError of a conversion between int and
  float.\<close>

datatype error = ReError string | ValueError | TypeError | OverflowError

text \<open>
  A Python float as the JSON loader yields it: a finite double, given by its value
  (every finite double is a rational number), an infinity (also what a literal beyond
  the range of a double, such as \<^verbatim>\<open>1e999\<close>, is loaded as) or NaN.
\<close>

datatype pyfloat = Finite rat | PosInf | NegInf | NaN

text \<open>A JSON value as far as \<^verbatim>\<open>int()\<close> tells values apart.\<close>

datatype jv = JNull | JBool bool | JInt int | JReal pyfloat | JStr string | JArray | JObject

text \<open>One entry of the legacy \<^verbatim>\<open>checks\<close> list; a missing \<^verbatim>\<open>type\<close> behaves as any
  string other than \<^verbatim>\<open>contains_any\<close>, a missing \<^verbatim>\<open>patterns\<close> as the empty list.\<close>

record check =
  chk_type :: string
  chk_patterns :: "string list"

text \<open>The facts dictionary, as its list of items.\<close>

type_synonym facts = "(string \<times> string list) list"

text \<open>A rule dictionary. \<open>None\<close> is a missing key, where the source reads with
  \<^verbatim>\<open>rule.get\<close>.\<close>

record rule =
  rid :: string
  item :: string
  source_docs :: "string list option"
  locator_hint :: string
  owner :: string
  evidence_hints :: "string list"
  checks :: "check list option"
  rule_type :: "string option"
  positive_patterns :: "string list option"
  negative_patterns :: "string list option"
  forbidden_claims :: "string list option"
  threshold :: "jv option"
  negation_window_tokens :: "jv option"
  ops_facts :: "facts option"

text \<open>
  What the interpreter supplies: the regular-expression library (compiled with the
  flags IGNORECASE, MULTILINE and DOTALL; \<open>None\<close> when \<^verbatim>\<open>re.compile\<close> raises),
  \<^verbatim>\<open>finditer\<close> as the list of match spans, \<^verbatim>\<open>search\<close> as a test, and the order in
  which a set built from the given elements is iterated.
\<close>

record 'p runtime =
  re_compile :: "string \<Rightarrow> 'p option"
  re_finditer :: "'p \<Rightarrow> string \<Rightarrow> (nat \<times> nat) list"
  re_search :: "'p \<Rightarrow> string \<Rightarrow> bool"
  set_iter :: "string list \<Rightarrow> string list"

section \<open>Text utilities\<close>

definition snippet :: "string \<Rightarrow> nat \<Rightarrow> nat \<Rightarrow> nat \<Rightarrow> string" where
  "snippet text start end' margin =
     (let a = start - margin;
          b = min (length text) (end' + margin)
      in strip (replace_bsn (slice text a b)))"

definition any_regex :: "'p runtime \<Rightarrow> string list option \<Rightarrow> error + 'p option" where
  "any_regex E patterns =
     (let pats = filter (\<lambda>p. p \<noteq> []) (case patterns of None \<Rightarrow> [] | Some ps \<Rightarrow> ps)
      in if pats = [] then Inr None
         else let src = ''('' @ join ''|'' pats @ '')''
              in case re_compile E src of
                   None \<Rightarrow> Inl (ReError src)
                 | Some c \<Rightarrow> Inr (Some c))"

definition find_all :: "'p runtime \<Rightarrow> 'p option \<Rightarrow> string \<Rightarrow> (nat \<times> nat) list" where
  "find_all E pattern text =
     (case pattern of
        None \<Rightarrow> []
      | Some c \<Rightarrow> if text = [] then [] else re_finditer E c text)"

definition window_has_negative ::
  "'p runtime \<Rightarrow> string \<Rightarrow> nat \<times> nat \<Rightarrow> 'p option \<Rightarrow> int \<Rightarrow> bool" where
  "window_has_negative E text center_span neg_re char_window =
     (case neg_re of
        None \<Rightarrow> False
      | Some c \<Rightarrow>
          let a = max 0 (int (fst center_span) - char_window);
              b = min (int (length text)) (int (snd center_span) + char_window)
          in re_search E c (slice text (nat a) (nat b)))"


section \<open>The regular expressions written in the source\<close>

text \<open>
  A backtracking matcher for the regular expressions the model needs, on their syntax
  trees. \<open>Sym cs\<close> is one character out of \<open>cs\<close>, letters compared without case as
  under \<^verbatim>\<open>re.IGNORECASE\<close>; \<open>Dot\<close> is any character (\<^verbatim>\<open>re.DOTALL\<close>); \<open>WordB\<close> is
  \<^verbatim>\<open>\b\<close>; \<open>Star\<close> is the greedy star.
\<close>

datatype rx = Eps | Sym string | Dot | WordB | Seq rx rx | Alt rx rx | Star rx

definition word_chars :: "string" where
  "word_chars = ascii_lower @ ascii_upper @ ascii_digits @ ''_''"

definition sym_ok :: "string \<Rightarrow> char \<Rightarrow> bool" where
  "sym_ok cs c = (c \<in> set cs \<or> lower_chr c \<in> set cs \<or> upper_chr c \<in> set cs)"

definition is_word_at :: "string \<Rightarrow> nat \<Rightarrow> bool" where
  "is_word_at t i = (i < length t \<and> t ! i \<in> set word_chars)"

definition boundary :: "string \<Rightarrow> nat \<Rightarrow> bool" where
  "boundary t i = (is_word_at t i \<noteq> (0 < i \<and> is_word_at t (i - 1)))"

text \<open>
  \<open>ends r t i\<close> lists the positions where a match of \<open>r\<close> starting at \<open>i\<close> can end, in
  the order in which backtracking finds them; the first is the match taken. The star
  tries another round before it stops, and a round that consumes nothing is not
  repeated.
\<close>

primrec star_ends :: "(nat \<Rightarrow> nat list) \<Rightarrow> nat \<Rightarrow> nat \<Rightarrow> nat list" where
  "star_ends f 0 i = [i]"
| "star_ends f (Suc n) i =
     concat (map (\<lambda>j. if i < j then star_ends f n j else []) (f i)) @ [i]"

primrec ends :: "rx \<Rightarrow> string \<Rightarrow> nat \<Rightarrow> nat list" where
  "ends Eps t i = [i]"
| "ends (Sym cs) t i = (if i < length t \<and> sym_ok cs (t ! i) then [Suc i] else [])"
| "ends Dot t i = (if i < length t then [Suc i] else [])"
| "ends WordB t i = (if boundary t i then [i] else [])"
| "ends (Seq a b) t i = concat (map (ends b t) (ends a t i))"
| "ends (Alt a b) t i = ends a t i @ ends b t i"
| "ends (Star a) t i = star_ends (ends a t) (length t - i) i"

text \<open>
  \<^verbatim>\<open>finditer\<close>: the leftmost match from position \<open>p\<close> on, then the next one from its
  end. After an empty match the search goes on at the same position for a non-empty
  match (\<open>adv\<close>), as Python does since 3.7.
\<close>

function rx_scan :: "rx \<Rightarrow> string \<Rightarrow> nat \<Rightarrow> bool \<Rightarrow> (nat \<times> nat) list" where
  "rx_scan r t p adv =
     (if length t < p then []
      else case filter (\<lambda>e. if adv then p < e else p \<le> e) (ends r t p) of
             [] \<Rightarrow> rx_scan r t (Suc p) False
           | e # _ \<Rightarrow> (p, e) # (if p < e then rx_scan r t e False else rx_scan r t p True))"
  by pat_completeness auto
termination
proof (relation "measures [\<lambda>(r, t, p, adv). Suc (length t) - p,
                           \<lambda>(r, t, p, adv). if adv then 0 else 1]", goal_cases)
  case 1
  then show ?case by simp
next
  case (2 r t p adv)
  then show ?case by auto
next
  case (3 r t p adv e es)
  then show ?case by auto
next
  case (4 r t p adv e es)
  from 4(2) have "e \<in> set (filter (\<lambda>e. if adv then p < e else p \<le> e) (ends r t p))"
    by simp
  with 4(3) have "\<not> adv" by (auto split: if_splits)
  then show ?case by simp
qed

definition rx_finditer :: "rx \<Rightarrow> string \<Rightarrow> (nat \<times> nat) list" where
  "rx_finditer r t = rx_scan r t 0 False"

text \<open>The registration shape \<^verbatim>\<open>\b[0-9A-Z]{1,2}-[A-Z]{3}\b\<close>, and
  \<^verbatim>\<open>re.findall\<close> of it with \<^verbatim>\<open>re.I\<close>.\<close>

definition reg_shape :: rx where
  "reg_shape =
     (let alnum = Sym (ascii_digits @ ascii_upper); alpha = Sym ascii_upper
      in Seq WordB (Seq alnum (Seq (Alt alnum Eps) (Seq (Sym ''-'')
           (Seq alpha (Seq alpha (Seq alpha WordB)))))))"

definition find_reg_codes :: "string \<Rightarrow> string list" where
  "find_reg_codes doc_text =
     map (\<lambda>m. slice doc_text (fst m) (snd m)) (rx_finditer reg_shape doc_text)"

text \<open>\<^verbatim>\<open>re.search(re.escape(r), doc_text, re.I) is not None\<close>: the literal \<open>r\<close>
  occurs in the text, letters compared without case.\<close>

definition search_escaped :: "string \<Rightarrow> string \<Rightarrow> bool" where
  "search_escaped r doc_text = contains (lower r) (lower doc_text)"


section \<open>Conversion to int\<close>

text \<open>
  \<^verbatim>\<open>int(v)\<close>. For a string: whitespace around it is dropped (code points 9 to 13 and
  32 and, beyond ASCII, 0x85 and 0xA0: unlike \<^verbatim>\<open>str.strip\<close>, \<^verbatim>\<open>int\<close> leaves 28 to
  31 in place), then come an optional sign and decimal digits, with single underscores
  allowed between digits; anything else raises ValueError, and so does a string of
  more than 4300 digits (the default limit of Python 3.11). A finite float is
  truncated towards zero, an infinity raises OverflowError and NaN raises ValueError.
  \<^verbatim>\<open>None\<close>, lists and dictionaries raise TypeError.
\<close>

definition int_space_chars :: "string" where
  "int_space_chars = [CHR 0x09, CHR 0x0A, CHR 0x0B, CHR 0x0C, CHR 0x0D, CHR 0x20,
                      CHR 0x85, CHR 0xA0]"

definition strip_int :: "string \<Rightarrow> string" where
  "strip_int s =
     rev (dropWhile (\<lambda>c. c \<in> set int_space_chars)
            (rev (dropWhile (\<lambda>c. c \<in> set int_space_chars) s)))"

definition max_str_digits :: nat where
  "max_str_digits = 4300"

definition digit_of :: "char \<Rightarrow> int option" where
  "digit_of c = map_of (zip ascii_digits [0, 1, 2, 3, 4, 5, 6, 7, 8, 9]) c"

fun digits_value :: "string \<Rightarrow> int \<Rightarrow> bool \<Rightarrow> int option" where
  "digits_value [] acc after_digit = (if after_digit then Some acc else None)"
| "digits_value (c # cs) acc after_digit =
     (if c = CHR ''_'' then (if after_digit then digits_value cs acc False else None)
      else case digit_of c of
             None \<Rightarrow> None
           | Some d \<Rightarrow> digits_value cs (10 * acc + d) True)"

definition int_of_str :: "string \<Rightarrow> int option" where
  "int_of_str s =
     (case strip_int s of
        [] \<Rightarrow> None
      | c # cs \<Rightarrow>
          if max_str_digits < length (filter (\<lambda>d. d \<in> set ascii_digits) (c # cs)) then None
          else if c = CHR ''-'' then map_option uminus (digits_value cs 0 False)
          else if c = CHR ''+'' then digits_value cs 0 False
          else digits_value (c # cs) 0 False)"

text \<open>\<^verbatim>\<open>int(x)\<close> for a finite float of value \<open>q\<close>: the integer part, towards zero.\<close>

definition truncate :: "rat \<Rightarrow> int" where
  "truncate q = (if q < 0 then - \<lfloor>- q\<rfloor> else \<lfloor>q\<rfloor>)"

fun py_int :: "jv \<Rightarrow> error + int" where
  "py_int (JInt i) = Inr i"
| "py_int (JBool b) = Inr (if b then 1 else 0)"
| "py_int (JReal (Finite q)) = Inr (truncate q)"
| "py_int (JReal PosInf) = Inl OverflowError"
| "py_int (JReal NegInf) = Inl OverflowError"
| "py_int (JReal NaN) = Inl ValueError"
| "py_int (JStr s) = (case int_of_str s of None \<Rightarrow> Inl ValueError | Some i \<Rightarrow> Inr i)"
| "py_int JNull = Inl TypeError"
| "py_int JArray = Inl TypeError"
| "py_int JObject = Inl TypeError"

section \<open>Rule evaluation\<close>

subsection \<open>The legacy path\<close>

definition legacy_found :: "string \<Rightarrow> outcome" where
  "legacy_found pat =
     \<lparr>decision = FOUND, matched_positive = [], matched_forbidden = [],
      matched_pattern = pat, confidence = 6 / 10, notes = ''Legacy contains_any match''\<rparr>"

definition legacy_missing :: outcome where
  "legacy_missing =
     \<lparr>decision = MISSING, matched_positive = [], matched_forbidden = [],
      matched_pattern = [], confidence = 0, notes = ''Legacy contains_any not found''\<rparr>"

text \<open>The test of the inner loop: \<^verbatim>\<open>pat and pat.lower() in (doc_text or "").lower()\<close>.\<close>

definition legacy_hit :: "string \<Rightarrow> string \<Rightarrow> bool" where
  "legacy_hit doc_text pat = (pat \<noteq> [] \<and> contains (lower pat) (lower doc_text))"

text \<open>The two nested loops over the checks and their patterns; the first hit returns.\<close>

fun legacy_checks :: "check list \<Rightarrow> string \<Rightarrow> outcome" where
  "legacy_checks [] doc_text = legacy_missing"
| "legacy_checks (chk # rest) doc_text =
     (if chk_type chk = ''contains_any''
      then case find (legacy_hit doc_text) (chk_patterns chk) of
             Some pat \<Rightarrow> legacy_found pat
           | None \<Rightarrow> legacy_checks rest doc_text
      else legacy_checks rest doc_text)"

subsection \<open>Step 2: positive evidence with the local negation check\<close>

text \<open>The variables the loop over the positive matches updates.\<close>

record scan =
  pos_hits :: int
  pos_snips :: "string list"
  forb_snips :: "string list"
  first_pattern :: string

definition scan_step ::
  "'p runtime \<Rightarrow> string \<Rightarrow> 'p option \<Rightarrow> int \<Rightarrow> nat \<times> nat \<Rightarrow> scan \<Rightarrow> scan" where
  "scan_step E doc_text neg_re char_window m st =
     (if \<not> window_has_negative E doc_text m neg_re char_window
      then st\<lparr>pos_hits := pos_hits st + 1,
              pos_snips := pos_snips st @ [snippet doc_text (fst m) (snd m) 120],
              first_pattern := (if first_pattern st = []
                                then slice doc_text (fst m) (snd m)
                                else first_pattern st)\<rparr>
      else st\<lparr>forb_snips := forb_snips st @ [snippet doc_text (fst m) (snd m) 120]\<rparr>)"

definition scan_positive ::
  "'p runtime \<Rightarrow> string \<Rightarrow> 'p option \<Rightarrow> 'p option \<Rightarrow> int \<Rightarrow> string list \<Rightarrow> scan" where
  "scan_positive E doc_text pos_re neg_re char_window forbidden_snips =
     fold (scan_step E doc_text neg_re char_window) (find_all E pos_re doc_text)
       \<lparr>pos_hits = 0, pos_snips = [], forb_snips = forbidden_snips, first_pattern = []\<rparr>"

subsection \<open>Step 3: alignment with the facts\<close>

definition fact_list :: "facts \<Rightarrow> string \<Rightarrow> string list" where
  "fact_list f key = (case map_of f key of None \<Rightarrow> [] | Some vs \<Rightarrow> vs)"

text \<open>The registrations of the facts that do not occur in the text.\<close>

definition missing_regs :: "string list \<Rightarrow> string \<Rightarrow> string list" where
  "missing_regs regs doc_text = filter (\<lambda>r. \<not> search_escaped r doc_text) regs"

text \<open>The codes of the registration shape in the text, sorted, that are not among the
  registrations of the facts.\<close>

definition extra_regs :: "'p runtime \<Rightarrow> string list \<Rightarrow> string \<Rightarrow> string list" where
  "extra_regs E regs doc_text =
     (if regs \<noteq> []
      then filter (\<lambda>r. upper r \<notin> set (map upper regs))
             (sort (set_iter E (find_reg_codes doc_text)))
      else [])"

definition area_unstated :: "'p runtime \<Rightarrow> string list \<Rightarrow> string \<Rightarrow> bool" where
  "area_unstated E area doc_text =
     (area \<noteq> [] \<and> \<not> list_ex (\<lambda>a. search_escaped a doc_text) (set_iter E (map upper area)))"

text \<open>The notes of the alignment step.\<close>

definition align_notes :: "'p runtime \<Rightarrow> facts \<Rightarrow> string \<Rightarrow> string list" where
  "align_notes E f doc_text =
     (let regs = fact_list f ''registrations'';
          missing = missing_regs regs doc_text
      in (if regs \<noteq> [] \<and> missing \<noteq> []
          then [''Missing registrations in manuals: '' @ join '', '' missing] else [])
         @ (if area_unstated E (fact_list f ''area'') doc_text
            then [''Area from OpsSpecs not clearly stated in manuals''] else []))"

text \<open>The snippets the alignment step adds to the contradictions.\<close>

definition align_extras :: "'p runtime \<Rightarrow> facts \<Rightarrow> string \<Rightarrow> string list" where
  "align_extras E f doc_text =
     map (\<lambda>x. ''Extra reg in manuals: '' @ x)
       (extra_regs E (fact_list f ''registrations'') doc_text)"

text \<open>Truth value of \<^verbatim>\<open>ops_facts\<close>: neither \<^verbatim>\<open>None\<close> nor the empty dictionary.\<close>

definition truthy :: "facts option \<Rightarrow> bool" where
  "truthy f = (case f of None \<Rightarrow> False | Some d \<Rightarrow> d \<noteq> [])"

text \<open>\<^verbatim>\<open>rule.get("ops_facts") or ops_facts or {}\<close>.\<close>

definition facts_in_use :: "facts option \<Rightarrow> facts option \<Rightarrow> facts" where
  "facts_in_use rule_facts run_facts =
     (if truthy rule_facts then the rule_facts
      else if truthy run_facts then the run_facts else [])"

subsection \<open>Step 4: the decision\<close>

definition known_rule_types :: "string list" where
  "known_rule_types = [''deny'', ''limit'', ''align_with_opspecs'', ''affirm'']"

text \<open>
  The product \<^verbatim>\<open>0.2 * d\<close> converts the int \<open>d\<close> to a float first, which raises
  OverflowError when \<open>d\<close> rounds to a value beyond the largest double: from
  \<open>2 ^ 1024 - 2 ^ 970\<close> on, in absolute value.
\<close>

definition float_limit :: int where
  "float_limit = 2 ^ 1024 - 2 ^ 970"

text \<open>\<^verbatim>\<open>min(1.0, 0.6 + 0.2 * d)\<close> for an int \<open>d\<close>.\<close>

definition found_confidence :: "int \<Rightarrow> error + rat" where
  "found_confidence d =
     (if float_limit \<le> \<bar>d\<bar> then Inl OverflowError
      else Inr (min 1 (6 / 10 + 2 / 10 * of_int d)))"

definition decide :: "scan \<Rightarrow> int \<Rightarrow> error + outcome" where
  "decide st thr =
     (if pos_hits st \<ge> thr then
        (case found_confidence (pos_hits st - thr) of
           Inl e \<Rightarrow> Inl e
         | Inr c \<Rightarrow>
             Inr \<lparr>decision = FOUND, matched_positive = pos_snips st, matched_forbidden = [],
                  matched_pattern = first_pattern st, confidence = c, notes = []\<rparr>)
      else if pos_snips st \<noteq> [] \<and> forb_snips st \<noteq> [] then
        Inr \<lparr>decision = REVIEW, matched_positive = pos_snips st,
             matched_forbidden = forb_snips st, matched_pattern = first_pattern st,
             confidence = 5 / 10,
             notes = ''Positive evidence appears near negations/contradictions''\<rparr>
      else
        Inr \<lparr>decision = MISSING, matched_positive = [], matched_forbidden = [],
             matched_pattern = first_pattern st, confidence = 0, notes = []\<rparr>)"

subsection \<open>The semantic path\<close>

text \<open>The local variables the semantic path sets up before step 1: the rule type,
  the three compiled alternations, the threshold and the character window.\<close>

record 'p sem_vars =
  v_rule_type :: string
  v_pos_re :: "'p option"
  v_neg_re :: "'p option"
  v_forbid_re :: "'p option"
  v_threshold :: int
  v_char_window :: int

text \<open>\<^verbatim>\<open>int(rule.get(key, default))\<close>.\<close>

definition int_field :: "jv option \<Rightarrow> int \<Rightarrow> error + int" where
  "int_field v dflt = (case v of None \<Rightarrow> Inr dflt | Some j \<Rightarrow> py_int j)"

text \<open>The first exception, in the order of the assignments, ends the evaluation.\<close>

definition rule_setup :: "'p runtime \<Rightarrow> rule \<Rightarrow> error + 'p sem_vars" where
  "rule_setup E rule =
     (case any_regex E (positive_patterns rule) of Inl e \<Rightarrow> Inl e | Inr pos_re \<Rightarrow>
     (case any_regex E (negative_patterns rule) of Inl e \<Rightarrow> Inl e | Inr neg_re \<Rightarrow>
     (case any_regex E (forbidden_claims rule) of Inl e \<Rightarrow> Inl e | Inr forbid_re \<Rightarrow>
     (case int_field (threshold rule) 1 of Inl e \<Rightarrow> Inl e | Inr thr \<Rightarrow>
     (case int_field (negation_window_tokens rule) 12 of Inl e \<Rightarrow> Inl e | Inr w \<Rightarrow>
        Inr \<lparr>v_rule_type = (case rule_type rule of None \<Rightarrow> ''affirm'' | Some ty \<Rightarrow> ty),
             v_pos_re = pos_re, v_neg_re = neg_re, v_forbid_re = forbid_re,
             v_threshold = thr, v_char_window = max 0 (w * 6)\<rparr>)))))"

text \<open>Step 1 collects the snippets of the forbidden-claim matches.\<close>

definition forbidden_snips :: "'p runtime \<Rightarrow> 'p sem_vars \<Rightarrow> string \<Rightarrow> string list" where
  "forbidden_snips E su doc_text =
     map (\<lambda>m. snippet doc_text (fst m) (snd m) 120) (find_all E (v_forbid_re su) doc_text)"

text \<open>Steps 1 to 4.\<close>

definition semantic_steps ::
  "'p runtime \<Rightarrow> 'p sem_vars \<Rightarrow> facts option \<Rightarrow> string \<Rightarrow> facts option \<Rightarrow> error + outcome" where
  "semantic_steps E su rule_facts doc_text run_facts =
     (let fs = forbidden_snips E su doc_text
      in if fs \<noteq> [] \<and> v_rule_type su \<in> set known_rule_types then
           Inr \<lparr>decision = CONFLICT, matched_positive = [], matched_forbidden = fs,
                matched_pattern = [], confidence = 95 / 100,
                notes = ''Forbidden claim(s) present''\<rparr>
         else
           let st = scan_positive E doc_text (v_pos_re su) (v_neg_re su) (v_char_window su) fs
           in if v_rule_type su = ''align_with_opspecs'' \<and> (truthy run_facts \<or> truthy rule_facts)
              then
                let f = facts_in_use rule_facts run_facts;
                    ns = align_notes E f doc_text;
                    st' = st\<lparr>forb_snips := forb_snips st @ align_extras E f doc_text\<rparr>
                in if forb_snips st' \<noteq> [] then
                     Inr \<lparr>decision = CONFLICT, matched_positive = pos_snips st',
                          matched_forbidden = forb_snips st',
                          matched_pattern = first_pattern st', confidence = 9 / 10,
                          notes = (if ns \<noteq> [] then join ''; '' ns
                                   else ''Conflict with ops_facts'')\<rparr>
                   else if ns \<noteq> [] \<and> pos_hits st' < v_threshold su then
                     Inr \<lparr>decision = MISSING, matched_positive = pos_snips st',
                          matched_forbidden = [], matched_pattern = first_pattern st',
                          confidence = 2 / 10, notes = join ''; '' ns\<rparr>
                   else decide st' (v_threshold su)
              else decide st (v_threshold su))"

definition evaluate_rule_semantic ::
  "'p runtime \<Rightarrow> rule \<Rightarrow> string \<Rightarrow> facts option \<Rightarrow> error + outcome" where
  "evaluate_rule_semantic E rule doc_text run_facts =
     (let cks = (case checks rule of None \<Rightarrow> [] | Some cs \<Rightarrow> cs)
      in if cks \<noteq> [] then Inr (legacy_checks cks doc_text)
         else case rule_setup E rule of
                Inl e \<Rightarrow> Inl e
              | Inr su \<Rightarrow> semantic_steps E su (ops_facts rule) doc_text run_facts)"

section \<open>The report loop\<close>







section \<open>A regular-expression library for a fragment of the syntax\<close>

text \<open>
  A parser from pattern strings to syntax trees, for runs on concrete patterns. It
  covers literal characters, the dot, groups, alternation, the greedy quantifiers
  \<^verbatim>\<open>*\<close>, \<^verbatim>\<open>+\<close> and \<^verbatim>\<open>?\<close> on an item that cannot match the empty string, the classes
  \<^verbatim>\<open>\s\<close>, \<^verbatim>\<open>\d\<close> and \<^verbatim>\<open>\w\<close>, the boundary \<^verbatim>\<open>\b\<close> and escaped punctuation.
  \<open>Malformed\<close> is a pattern Python rejects; \<open>Beyond\<close> is a pattern outside the
  fragment, about which this library says nothing.
\<close>

datatype parsed = Parsed rx | Malformed | Beyond

fun nullable :: "rx \<Rightarrow> bool" where
  "nullable Eps = True"
| "nullable (Sym cs) = False"
| "nullable Dot = False"
| "nullable WordB = True"
| "nullable (Seq a b) = (nullable a \<and> nullable b)"
| "nullable (Alt a b) = (nullable a \<or> nullable b)"
| "nullable (Star a) = True"

text \<open>A group under construction: the finished alternatives and the items of the
  current one, both latest first.\<close>

type_synonym frame = "rx list \<times> rx list"

definition seq_of :: "rx list \<Rightarrow> rx" where
  "seq_of items = foldl (\<lambda>acc a. Seq a acc) Eps items"

fun alt_of :: "rx list \<Rightarrow> rx" where
  "alt_of [] = Eps"
| "alt_of [a] = a"
| "alt_of (a # b # bs) = Alt a (alt_of (b # bs))"

definition close_frame :: "frame \<Rightarrow> rx" where
  "close_frame f = alt_of (rev (seq_of (snd f) # fst f))"

definition push_item :: "rx \<Rightarrow> frame \<Rightarrow> frame" where
  "push_item a f = (fst f, a # snd f)"

definition quantify :: "char \<Rightarrow> rx \<Rightarrow> rx" where
  "quantify q a =
     (if q = CHR ''*'' then Star a
      else if q = CHR ''+'' then Seq a (Star a)
      else Alt a Eps)"

definition escape_item :: "char \<Rightarrow> rx option" where
  "escape_item d =
     (if d = CHR ''s'' then Some (Sym space_chars)
      else if d = CHR ''d'' then Some (Sym ascii_digits)
      else if d = CHR ''w'' then Some (Sym word_chars)
      else if d = CHR ''b'' then Some WordB
      else if d \<in> set ''.^$*+?{}[]()|/-'' \<or> d = CHR 0x5C then Some (Sym [d])
      else None)"

fun rx_parse :: "frame \<Rightarrow> frame list \<Rightarrow> string \<Rightarrow> parsed" where
  "rx_parse f st [] = (if st = [] then Parsed (close_frame f) else Malformed)"
| "rx_parse f st (c # cs) =
     (if c = CHR ''('' then
        (if cs \<noteq> [] \<and> hd cs = CHR ''?'' then Beyond else rx_parse ([], []) (f # st) cs)
      else if c = CHR '')'' then
        (case st of
           [] \<Rightarrow> Malformed
         | g # st' \<Rightarrow> rx_parse (push_item (close_frame f) g) st' cs)
      else if c = CHR ''|'' then rx_parse (seq_of (snd f) # fst f, []) st cs
      else if c \<in> set ''*+?'' then
        (case snd f of
           [] \<Rightarrow> Malformed
         | a # items \<Rightarrow>
             if nullable a \<or> (cs \<noteq> [] \<and> hd cs \<in> set ''*+?{'') then Beyond
             else rx_parse (fst f, quantify c a # items) st cs)
      else if c = CHR 0x5C then
        (case cs of
           [] \<Rightarrow> Malformed
         | d # ds \<Rightarrow>
             (case escape_item d of
                None \<Rightarrow> Beyond
              | Some a \<Rightarrow> rx_parse (push_item a f) st ds))
      else if c \<in> set ''[{^$'' then Beyond
      else if c = CHR ''.'' then rx_parse (push_item Dot f) st cs
      else rx_parse (push_item (Sym [c]) f) st cs)"

definition rx_compile :: "string \<Rightarrow> rx option" where
  "rx_compile src = (case rx_parse ([], []) [] src of Parsed r \<Rightarrow> Some r | _ \<Rightarrow> None)"

text \<open>The library, with the elements of a set iterated in the order of \<^const>\<open>remdups\<close>.\<close>

definition py_re :: "rx runtime" where
  "py_re = \<lparr>re_compile = rx_compile, re_finditer = rx_finditer,
            re_search = (\<lambda>r t. rx_finditer r t \<noteq> []), set_iter = remdups\<rparr>"


section \<open>Notions used in the properties\<close>

text \<open>The rule \<^verbatim>\<open>{}\<close>, from which the concrete rules below are built.\<close>

definition empty_rule :: rule where
  "empty_rule =
     \<lparr>rid = [], item = [], source_docs = None, locator_hint = [], owner = [],
      evidence_hints = [], checks = None, rule_type = None, positive_patterns = None,
      negative_patterns = None, forbidden_claims = None, threshold = None,
      negation_window_tokens = None, ops_facts = None\<rparr>"

text \<open>A rule is on the semantic path when it has no legacy checks.\<close>

definition semantic_path :: "rule \<Rightarrow> bool" where
  "semantic_path rule = (checks rule = None \<or> checks rule = Some [])"

text \<open>The positive matches without, and with, a negative match in their window.\<close>

definition clean_hits :: "'p runtime \<Rightarrow> 'p sem_vars \<Rightarrow> string \<Rightarrow> (nat \<times> nat) list" where
  "clean_hits E su doc_text =
     filter (\<lambda>m. \<not> window_has_negative E doc_text m (v_neg_re su) (v_char_window su))
       (find_all E (v_pos_re su) doc_text)"

definition negated_hits :: "'p runtime \<Rightarrow> 'p sem_vars \<Rightarrow> string \<Rightarrow> (nat \<times> nat) list" where
  "negated_hits E su doc_text =
     filter (\<lambda>m. window_has_negative E doc_text m (v_neg_re su) (v_char_window su))
       (find_all E (v_pos_re su) doc_text)"

text \<open>The alignment step runs for this rule and these run-level facts.\<close>

definition align_runs :: "'p sem_vars \<Rightarrow> rule \<Rightarrow> facts option \<Rightarrow> bool" where
  "align_runs su rule run_facts =
     (v_rule_type su = ''align_with_opspecs'' \<and> (truthy run_facts \<or> truthy (ops_facts rule)))"

text \<open>A set is iterated element by element, each once, in some order.\<close>

definition set_iter_ok :: "'p runtime \<Rightarrow> bool" where
  "set_iter_ok E = (\<forall>xs. mset (set_iter E xs) = mset (remdups xs))"



section \<open>Example rules\<close>

text \<open>A rule of a type outside the four known ones, with a forbidden claim.\<close>

definition prohibit_night_rule :: rule where
  "prohibit_night_rule =
     empty_rule\<lparr>rule_type := Some ''prohibit'', forbidden_claims := Some [''night'']\<rparr>"

text \<open>A \<^verbatim>\<open>deny\<close> rule whose forbidden and positive patterns both occur in
  \<^verbatim>\<open>night ops\<close>.\<close>

definition deny_night_rule :: rule where
  "deny_night_rule =
     empty_rule\<lparr>rule_type := Some ''deny'', positive_patterns := Some [''ops''],
                 forbidden_claims := Some [''night'']\<rparr>"

text \<open>The rule of the fuel-reserve scenarios, then with a negation pattern and a
  window of three tokens, then with a threshold of two.\<close>

definition fuel_reserve_rule :: rule where
  "fuel_reserve_rule =
     empty_rule\<lparr>rule_type := Some ''affirm'', positive_patterns := Some [''fuel reserve''],
                 threshold := Some (JInt 1)\<rparr>"

definition no_fuel_rule :: rule where
  "no_fuel_rule =
     fuel_reserve_rule\<lparr>negative_patterns := Some [''no'' @ [CHR 0x5C] @ ''s+fuel''],
                        negation_window_tokens := Some (JInt 3)\<rparr>"

definition no_fuel_twice_rule :: rule where
  "no_fuel_twice_rule = no_fuel_rule\<lparr>threshold := Some (JInt 2)\<rparr>"

text \<open>Alignment rules with the registration \<^verbatim>\<open>4X-BHS\<close> as the only fact: plain, with a
  positive pattern, with a forbidden claim, and with a threshold of zero.\<close>

definition fleet_rule :: rule where
  "fleet_rule =
     empty_rule\<lparr>rule_type := Some ''align_with_opspecs'',
                 ops_facts := Some [(''registrations'', [''4X-BHS''])]\<rparr>"

definition fleet_fuel_rule :: rule where
  "fleet_fuel_rule = fleet_rule\<lparr>positive_patterns := Some [''fuel'']\<rparr>"

definition fleet_night_rule :: rule where
  "fleet_night_rule = fleet_rule\<lparr>forbidden_claims := Some [''night'']\<rparr>"

definition fleet_zero_rule :: rule where
  "fleet_zero_rule = fleet_rule\<lparr>threshold := Some (JInt 0)\<rparr>"


definition string_threshold_rule :: "string \<Rightarrow> rule" where
  "string_threshold_rule v = empty_rule\<lparr>threshold := Some (JStr v)\<rparr>"

text \<open>A rule whose threshold is the JSON integer \<open>- (2 ^ 1024)\<close>, and rules whose
  threshold is a JSON real.\<close>

definition huge_negative_threshold_rule :: rule where
  "huge_negative_threshold_rule = empty_rule\<lparr>threshold := Some (JInt (- (2 ^ 1024)))\<rparr>"


section \<open>Auxiliary facts\<close>

lemma starts_with_iff: "starts_with t p \<longleftrightarrow> (\<exists>v. t = p @ v)"
  by (induction t p rule: starts_with.induct) auto

lemma contains_iff: "contains p t \<longleftrightarrow> (\<exists>u v. t = u @ p @ v)"
proof (induction t)
  case Nil
  then show ?case by auto
next
  case (Cons c t)
  show ?case
  proof
    assume "contains p (c # t)"
    then consider "starts_with (c # t) p" | "contains p t" by auto
    then show "\<exists>u v. c # t = u @ p @ v"
    proof cases
      case 1
      then obtain v where "c # t = p @ v" by (auto simp: starts_with_iff)
      then have "c # t = [] @ p @ v" by simp
      then show ?thesis by blast
    next
      case 2
      with Cons.IH obtain u v where "t = u @ p @ v" by auto
      then have "c # t = (c # u) @ p @ v" by simp
      then show ?thesis by blast
    qed
  next
    assume "\<exists>u v. c # t = u @ p @ v"
    then obtain u v where uv: "c # t = u @ p @ v" by auto
    show "contains p (c # t)"
    proof (cases u)
      case Nil
      with uv have "starts_with (c # t) p" by (auto simp: starts_with_iff)
      then show ?thesis by simp
    next
      case (Cons d u')
      with uv have "t = u' @ p @ v" by simp
      with Cons.IH have "contains p t" by blast
      then show ?thesis by simp
    qed
  qed
qed

lemma legacy_hit_iff:
  "legacy_hit doc_text p \<longleftrightarrow> p \<noteq> [] \<and> (\<exists>u v. lower doc_text = u @ lower p @ v)"
  by (simp add: legacy_hit_def contains_iff)

lemma find_append_first:
  "find P (xs @ ys) = (case find P xs of None \<Rightarrow> find P ys | Some x \<Rightarrow> Some x)"
  by (induction xs) auto

lemma legacy_checks_all_contains_any:
  "\<forall>c\<in>set cs. chk_type c = ''contains_any'' \<Longrightarrow>
   legacy_checks cs doc_text =
     (case find (legacy_hit doc_text) (concat (map chk_patterns cs)) of
        Some pat \<Rightarrow> legacy_found pat
      | None \<Rightarrow> legacy_missing)"
  by (induction cs) (auto simp: find_append_first split: option.splits)

lemma legacy_checks_no_hit:
  "\<forall>c\<in>set cs. chk_type c = ''contains_any'' \<longrightarrow>
     (\<forall>p\<in>set (chk_patterns c). \<not> legacy_hit doc_text p) \<Longrightarrow>
   legacy_checks cs doc_text = legacy_missing"
proof (induction cs)
  case Nil
  then show ?case by simp
next
  case (Cons c cs)
  then have "chk_type c = ''contains_any'' \<Longrightarrow> find (legacy_hit doc_text) (chk_patterns c) = None"
    by (simp add: find_None_iff)
  with Cons show ?case by simp
qed

lemma evaluate_legacy:
  "checks rule = Some cs \<Longrightarrow> cs \<noteq> [] \<Longrightarrow>
   evaluate_rule_semantic E rule doc_text run_facts = Inr (legacy_checks cs doc_text)"
  by (simp add: evaluate_rule_semantic_def)

lemma evaluate_semantic:
  "semantic_path rule \<Longrightarrow>
   evaluate_rule_semantic E rule doc_text run_facts =
     (case rule_setup E rule of
        Inl e \<Rightarrow> Inl e
      | Inr su \<Rightarrow> semantic_steps E su (ops_facts rule) doc_text run_facts)"
  by (auto simp: evaluate_rule_semantic_def semantic_path_def)

section \<open>Properties of the legacy path\<close>

text \<open>
  C5. A rule whose checks are all of type \<^verbatim>\<open>contains_any\<close> (and there is at least
  one) is decided by the legacy path alone: the decision is FOUND exactly when some
  non-empty pattern, lower-cased, is a substring of the lower-cased text; then the
  confidence is 0.6 and the matched pattern is the first such pattern in the order of
  the checks. Otherwise the decision is MISSING with confidence 0.0. The result does
  not depend on the regular-expression library, on the facts, or on any other field.
\<close>

theorem legacy_contains_any_decision:
  assumes "checks rule = Some cs" and "cs \<noteq> []"
    and "\<forall>c\<in>set cs. chk_type c = ''contains_any''"
  shows "evaluate_rule_semantic E rule doc_text run_facts =
           Inr (case find (legacy_hit doc_text) (concat (map chk_patterns cs)) of
                  Some pat \<Rightarrow>
                    \<lparr>decision = FOUND, matched_positive = [], matched_forbidden = [],
                     matched_pattern = pat, confidence = 6 / 10,
                     notes = ''Legacy contains_any match''\<rparr>
                | None \<Rightarrow>
                    \<lparr>decision = MISSING, matched_positive = [], matched_forbidden = [],
                     matched_pattern = [], confidence = 0,
                     notes = ''Legacy contains_any not found''\<rparr>)
         \<and> (find (legacy_hit doc_text) (concat (map chk_patterns cs)) \<noteq> None \<longleftrightarrow>
              (\<exists>p\<in>set (concat (map chk_patterns cs)).
                 p \<noteq> [] \<and> (\<exists>u v. lower doc_text = u @ lower p @ v)))"
proof
  show "evaluate_rule_semantic E rule doc_text run_facts =
           Inr (case find (legacy_hit doc_text) (concat (map chk_patterns cs)) of
                  Some pat \<Rightarrow>
                    \<lparr>decision = FOUND, matched_positive = [], matched_forbidden = [],
                     matched_pattern = pat, confidence = 6 / 10,
                     notes = ''Legacy contains_any match''\<rparr>
                | None \<Rightarrow>
                    \<lparr>decision = MISSING, matched_positive = [], matched_forbidden = [],
                     matched_pattern = [], confidence = 0,
                     notes = ''Legacy contains_any not found''\<rparr>)"
    using assms
    by (simp add: evaluate_legacy legacy_checks_all_contains_any legacy_found_def
        legacy_missing_def split: option.splits)
  show "find (legacy_hit doc_text) (concat (map chk_patterns cs)) \<noteq> None \<longleftrightarrow>
          (\<exists>p\<in>set (concat (map chk_patterns cs)).
             p \<noteq> [] \<and> (\<exists>u v. lower doc_text = u @ lower p @ v))"
    unfolding find_None_iff legacy_hit_iff by blast
qed

text \<open>An instance: the empty pattern is skipped, the first pattern found is reported
  in its own spelling, and the malformed regular expression of the rule is never
  compiled.\<close>

theorem legacy_contains_any_decision_witness:
  "checks (empty_rule\<lparr>checks := Some [\<lparr>chk_type = ''contains_any'',
                                        chk_patterns = ['''', ''Fuel Reserve'', ''fuel'']\<rparr>],
                       positive_patterns := Some [''('']\<rparr>)
     = Some [\<lparr>chk_type = ''contains_any'', chk_patterns = ['''', ''Fuel Reserve'', ''fuel'']\<rparr>]
   \<and> [\<lparr>chk_type = ''contains_any'', chk_patterns = ['''', ''Fuel Reserve'', ''fuel'']\<rparr>] \<noteq> []
   \<and> list_all (\<lambda>c. chk_type c = ''contains_any'')
        [\<lparr>chk_type = ''contains_any'', chk_patterns = ['''', ''Fuel Reserve'', ''fuel'']\<rparr>]
   \<and> evaluate_rule_semantic py_re
        (empty_rule\<lparr>checks := Some [\<lparr>chk_type = ''contains_any'',
                                      chk_patterns = ['''', ''Fuel Reserve'', ''fuel'']\<rparr>],
                     positive_patterns := Some [''('']\<rparr>)
        ''The FUEL reserve is 30 minutes.'' None
     = Inr \<lparr>decision = FOUND, matched_positive = [], matched_forbidden = [],
            matched_pattern = ''Fuel Reserve'', confidence = 6 / 10,
            notes = ''Legacy contains_any match''\<rparr>"
proof -
  let ?cs = "[\<lparr>chk_type = ''contains_any'', chk_patterns = ['''', ''Fuel Reserve'', ''fuel'']\<rparr>]"
  let ?r = "empty_rule\<lparr>checks := Some ?cs, positive_patterns := Some [''('']\<rparr>"
  have h1: "checks ?r = Some ?cs" by simp
  have h2: "?cs \<noteq> []" by simp
  have h3: "\<forall>c\<in>set ?cs. chk_type c = ''contains_any''" by simp
  have f: "find (legacy_hit ''The FUEL reserve is 30 minutes.'') (concat (map chk_patterns ?cs))
             = Some ''Fuel Reserve''"
    by code_simp
  from legacy_contains_any_decision [OF h1 h2 h3, of py_re "''The FUEL reserve is 30 minutes.''" None]
  have "evaluate_rule_semantic py_re ?r ''The FUEL reserve is 30 minutes.'' None
          = Inr \<lparr>decision = FOUND, matched_positive = [], matched_forbidden = [],
                 matched_pattern = ''Fuel Reserve'', confidence = 6 / 10,
                 notes = ''Legacy contains_any match''\<rparr>"
    unfolding f by simp
  with h1 h2 show ?thesis by simp
qed

text \<open>
  C9. A rule with a non-empty list of checks is decided by the legacy path whatever
  else it holds: any rule with the same checks gets the same result, under any
  regular-expression library and any facts, so the positive, negative and forbidden
  patterns, the threshold and the alignment are ignored. If no check of type
  \<^verbatim>\<open>contains_any\<close> has a non-empty pattern that is, lower-cased, a substring of the
  lower-cased text, the result is MISSING with confidence 0.0.
\<close>

theorem legacy_path_unconditional:
  assumes "checks rule = Some cs" and "cs \<noteq> []"
  shows "(\<forall>rule' run_facts'. checks rule' = checks rule \<longrightarrow>
            evaluate_rule_semantic E' rule' doc_text run_facts'
              = evaluate_rule_semantic E rule doc_text run_facts)
         \<and> ((\<forall>c\<in>set cs. chk_type c = ''contains_any'' \<longrightarrow>
               (\<forall>p\<in>set (chk_patterns c).
                  p = [] \<or> \<not> (\<exists>u v. lower doc_text = u @ lower p @ v)))
            \<longrightarrow> evaluate_rule_semantic E rule doc_text run_facts =
                  Inr \<lparr>decision = MISSING, matched_positive = [], matched_forbidden = [],
                       matched_pattern = [], confidence = 0,
                       notes = ''Legacy contains_any not found''\<rparr>)"
proof (intro conjI allI impI)
  fix rule' :: rule and run_facts'
  assume "checks rule' = checks rule"
  with assms show "evaluate_rule_semantic E' rule' doc_text run_facts'
                     = evaluate_rule_semantic E rule doc_text run_facts"
    by (simp add: evaluate_legacy)
next
  assume "\<forall>c\<in>set cs. chk_type c = ''contains_any'' \<longrightarrow>
            (\<forall>p\<in>set (chk_patterns c). p = [] \<or> \<not> (\<exists>u v. lower doc_text = u @ lower p @ v))"
  then have "\<forall>c\<in>set cs. chk_type c = ''contains_any'' \<longrightarrow>
               (\<forall>p\<in>set (chk_patterns c). \<not> legacy_hit doc_text p)"
    unfolding legacy_hit_iff by blast
  then have "legacy_checks cs doc_text = legacy_missing"
    by (rule legacy_checks_no_hit)
  with assms show "evaluate_rule_semantic E rule doc_text run_facts =
                  Inr \<lparr>decision = MISSING, matched_positive = [], matched_forbidden = [],
                       matched_pattern = [], confidence = 0,
                       notes = ''Legacy contains_any not found''\<rparr>"
    by (simp add: evaluate_legacy legacy_missing_def)
qed

text \<open>An instance: the only check is of another type, so the rule is MISSING although
  its positive pattern occurs in the text and its threshold is 0; a rule with the same
  checks and a pattern that does not compile gets the same result.\<close>

theorem legacy_path_unconditional_witness:
  "checks (empty_rule\<lparr>checks := Some [\<lparr>chk_type = ''regex'', chk_patterns = [''fuel'']\<rparr>],
                       positive_patterns := Some [''fuel''], threshold := Some (JInt 0)\<rparr>)
     = Some [\<lparr>chk_type = ''regex'', chk_patterns = [''fuel'']\<rparr>]
   \<and> [\<lparr>chk_type = ''regex'', chk_patterns = [''fuel'']\<rparr>] \<noteq> []
   \<and> evaluate_rule_semantic py_re
        (empty_rule\<lparr>checks := Some [\<lparr>chk_type = ''regex'', chk_patterns = [''fuel'']\<rparr>],
                     positive_patterns := Some [''fuel''], threshold := Some (JInt 0)\<rparr>)
        ''fuel'' None
     = Inr \<lparr>decision = MISSING, matched_positive = [], matched_forbidden = [],
            matched_pattern = [], confidence = 0, notes = ''Legacy contains_any not found''\<rparr>
   \<and> evaluate_rule_semantic py_re
        (empty_rule\<lparr>checks := Some [\<lparr>chk_type = ''regex'', chk_patterns = [''fuel'']\<rparr>],
                     forbidden_claims := Some [''('']\<rparr>)
        ''fuel'' (Some [(''registrations'', [''4X-BHS''])])
     = evaluate_rule_semantic py_re
        (empty_rule\<lparr>checks := Some [\<lparr>chk_type = ''regex'', chk_patterns = [''fuel'']\<rparr>],
                     positive_patterns := Some [''fuel''], threshold := Some (JInt 0)\<rparr>)
        ''fuel'' None"
proof -
  let ?cs = "[\<lparr>chk_type = ''regex'', chk_patterns = [''fuel'']\<rparr>]"
  let ?r = "empty_rule\<lparr>checks := Some ?cs, positive_patterns := Some [''fuel''],
                        threshold := Some (JInt 0)\<rparr>"
  let ?r' = "empty_rule\<lparr>checks := Some ?cs, forbidden_claims := Some [''('']\<rparr>"
  have h1: "checks ?r = Some ?cs" by simp
  have h2: "?cs \<noteq> []" by simp
  have same: "checks ?r' = checks ?r" by simp
  note inst = legacy_path_unconditional [OF h1 h2, of py_re "''fuel''" py_re None]
  from inst have a: "evaluate_rule_semantic py_re ?r ''fuel'' None
     = Inr \<lparr>decision = MISSING, matched_positive = [], matched_forbidden = [],
            matched_pattern = [], confidence = 0, notes = ''Legacy contains_any not found''\<rparr>"
    by simp
  from inst same have b: "evaluate_rule_semantic py_re ?r' ''fuel'' (Some [(''registrations'', [''4X-BHS''])])
     = evaluate_rule_semantic py_re ?r ''fuel'' None"
    by blast
  from h1 h2 a b show ?thesis by blast
qed

section \<open>Facts about the semantic path\<close>

lemma fold_scan_pos_hits:
  "pos_hits (fold (scan_step E t neg w) ms st) =
     pos_hits st + int (length (filter (\<lambda>m. \<not> window_has_negative E t m neg w) ms))"
  by (induction ms arbitrary: st) (auto simp: scan_step_def)

lemma fold_scan_pos_snips:
  "pos_snips (fold (scan_step E t neg w) ms st) =
     pos_snips st @ map (\<lambda>m. snippet t (fst m) (snd m) 120)
                      (filter (\<lambda>m. \<not> window_has_negative E t m neg w) ms)"
  by (induction ms arbitrary: st) (auto simp: scan_step_def)

lemma fold_scan_forb_snips:
  "forb_snips (fold (scan_step E t neg w) ms st) =
     forb_snips st @ map (\<lambda>m. snippet t (fst m) (snd m) 120)
                       (filter (\<lambda>m. window_has_negative E t m neg w) ms)"
  by (induction ms arbitrary: st) (auto simp: scan_step_def)

lemma scan_positive_hits:
  "pos_hits (scan_positive E t (v_pos_re su) (v_neg_re su) (v_char_window su) fs)
     = int (length (clean_hits E su t))"
  by (simp add: scan_positive_def clean_hits_def fold_scan_pos_hits)

lemma scan_positive_pos_snips:
  "pos_snips (scan_positive E t (v_pos_re su) (v_neg_re su) (v_char_window su) fs)
     = map (\<lambda>m. snippet t (fst m) (snd m) 120) (clean_hits E su t)"
  by (simp add: scan_positive_def clean_hits_def fold_scan_pos_snips)

lemma scan_positive_forb_snips:
  "forb_snips (scan_positive E t (v_pos_re su) (v_neg_re su) (v_char_window su) fs)
     = fs @ map (\<lambda>m. snippet t (fst m) (snd m) 120) (negated_hits E su t)"
  by (simp add: scan_positive_def negated_hits_def fold_scan_forb_snips)

lemma rule_setup_fields:
  assumes "rule_setup E rule = Inr su"
  shows "v_rule_type su = (case rule_type rule of None \<Rightarrow> ''affirm'' | Some ty \<Rightarrow> ty)"
    and "any_regex E (positive_patterns rule) = Inr (v_pos_re su)"
    and "any_regex E (negative_patterns rule) = Inr (v_neg_re su)"
    and "any_regex E (forbidden_claims rule) = Inr (v_forbid_re su)"
    and "int_field (threshold rule) 1 = Inr (v_threshold su)"
    and "\<exists>k. int_field (negation_window_tokens rule) 12 = Inr k \<and> v_char_window su = max 0 (k * 6)"
  using assms by (auto simp: rule_setup_def split: sum.splits)

lemma float_limit_positive: "0 < float_limit"
  by (simp add: float_limit_def)

lemma found_confidence_in_range:
  "0 \<le> d \<Longrightarrow> d < float_limit \<Longrightarrow>
   found_confidence d = Inr (min 1 (6 / 10 + 2 / 10 * of_int d))"
  by (simp add: found_confidence_def)

lemma decide_found:
  "thr \<le> pos_hits st \<Longrightarrow> pos_hits st - thr < float_limit \<Longrightarrow>
   decide st thr =
     Inr \<lparr>decision = FOUND, matched_positive = pos_snips st, matched_forbidden = [],
          matched_pattern = first_pattern st,
          confidence = min 1 (6 / 10 + 2 / 10 * of_int (pos_hits st - thr)), notes = []\<rparr>"
  by (simp add: decide_def found_confidence_in_range)

lemma decide_below:
  "pos_hits st < thr \<Longrightarrow> \<exists>out. decide st thr = Inr out \<and> decision out \<noteq> FOUND"
  by (simp add: decide_def)


section \<open>The forbidden-claim guard\<close>

text \<open>
  C1, as the code has it. For a rule on the semantic path whose patterns compile and
  whose numbers convert: if the alternation of the forbidden claims has a match in the
  text (which is then not empty: in the empty text \<^verbatim>\<open>find_all\<close> finds nothing) and the
  rule type is one of \<^verbatim>\<open>deny\<close>, \<^verbatim>\<open>limit\<close>, \<^verbatim>\<open>align_with_opspecs\<close> and
  \<^verbatim>\<open>affirm\<close> (the default), the outcome is CONFLICT with confidence 0.95, the note
  \<^verbatim>\<open>Forbidden claim(s) present\<close>, no positive snippets and the snippets of the
  forbidden matches, whatever the positive patterns match.
\<close>

theorem forbidden_claim_conflict:
  assumes "semantic_path rule" and "rule_setup E rule = Inr su"
    and "find_all E (v_forbid_re su) doc_text \<noteq> []"
    and "v_rule_type su \<in> {''deny'', ''limit'', ''align_with_opspecs'', ''affirm''}"
  shows "evaluate_rule_semantic E rule doc_text run_facts =
           Inr \<lparr>decision = CONFLICT, matched_positive = [],
                matched_forbidden = map (\<lambda>m. snippet doc_text (fst m) (snd m) 120)
                                      (find_all E (v_forbid_re su) doc_text),
                matched_pattern = [], confidence = 95 / 100,
                notes = ''Forbidden claim(s) present''\<rparr>"
  using assms
  by (simp add: evaluate_semantic semantic_steps_def forbidden_snips_def known_rule_types_def)

theorem forbidden_claim_conflict_witness:
  "semantic_path deny_night_rule
   \<and> rule_setup py_re deny_night_rule =
       Inr \<lparr>v_rule_type = ''deny'', v_pos_re = rx_compile ''(ops)'', v_neg_re = None,
            v_forbid_re = rx_compile ''(night)'', v_threshold = 1, v_char_window = 72\<rparr>
   \<and> find_all py_re (rx_compile ''(ops)'') ''night ops'' = [(6, 9)]
   \<and> find_all py_re (rx_compile ''(night)'') ''night ops'' = [(0, 5)]
   \<and> evaluate_rule_semantic py_re deny_night_rule ''night ops'' None =
       Inr \<lparr>decision = CONFLICT, matched_positive = [], matched_forbidden = [''night ops''],
            matched_pattern = [], confidence = 95 / 100,
            notes = ''Forbidden claim(s) present''\<rparr>"
proof -
  let ?su = "\<lparr>v_rule_type = ''deny'', v_pos_re = rx_compile ''(ops)'', v_neg_re = None,
              v_forbid_re = rx_compile ''(night)'', v_threshold = 1, v_char_window = 72\<rparr>"
  have h1: "semantic_path deny_night_rule"
    by (simp add: semantic_path_def deny_night_rule_def empty_rule_def)
  have h2: "rule_setup py_re deny_night_rule = Inr ?su" by code_simp
  have p: "find_all py_re (rx_compile ''(ops)'') ''night ops'' = [(6, 9)]" by code_simp
  have f: "find_all py_re (rx_compile ''(night)'') ''night ops'' = [(0, 5)]" by code_simp
  have h3: "find_all py_re (v_forbid_re ?su) ''night ops'' \<noteq> []" using f by simp
  have h4: "v_rule_type ?su \<in> {''deny'', ''limit'', ''align_with_opspecs'', ''affirm''}" by simp
  have s: "snippet ''night ops'' 0 5 120 = ''night ops''" by code_simp
  from forbidden_claim_conflict [OF h1 h2 h3 h4, of None]
  have "evaluate_rule_semantic py_re deny_night_rule ''night ops'' None =
       Inr \<lparr>decision = CONFLICT, matched_positive = [], matched_forbidden = [''night ops''],
            matched_pattern = [], confidence = 95 / 100,
            notes = ''Forbidden claim(s) present''\<rparr>"
    by (simp add: f s)
  with h1 h2 p f show ?thesis by simp
qed

text \<open>
  The guard is written with a test of the rule type: under a type outside the four,
  a forbidden claim that matches does not end the evaluation, and here the rule
  comes out MISSING.
\<close>

theorem forbidden_claim_unknown_type_counterexample:
  "semantic_path prohibit_night_rule
   \<and> rule_setup py_re prohibit_night_rule =
       Inr \<lparr>v_rule_type = ''prohibit'', v_pos_re = None, v_neg_re = None,
            v_forbid_re = rx_compile ''(night)'', v_threshold = 1, v_char_window = 72\<rparr>
   \<and> find_all py_re (rx_compile ''(night)'') ''night ops'' = [(0, 5)]
   \<and> evaluate_rule_semantic py_re prohibit_night_rule ''night ops'' None =
       Inr \<lparr>decision = MISSING, matched_positive = [], matched_forbidden = [],
            matched_pattern = [], confidence = 0, notes = []\<rparr>"
proof -
  have a: "semantic_path prohibit_night_rule"
    by (simp add: semantic_path_def prohibit_night_rule_def empty_rule_def)
  have b: "rule_setup py_re prohibit_night_rule =
       Inr \<lparr>v_rule_type = ''prohibit'', v_pos_re = None, v_neg_re = None,
            v_forbid_re = rx_compile ''(night)'', v_threshold = 1, v_char_window = 72\<rparr>"
    by code_simp
  have c: "find_all py_re (rx_compile ''(night)'') ''night ops'' = [(0, 5)]" by code_simp
  have d: "evaluate_rule_semantic py_re prohibit_night_rule ''night ops'' None =
       Inr \<lparr>decision = MISSING, matched_positive = [], matched_forbidden = [],
            matched_pattern = [], confidence = 0, notes = []\<rparr>"
    by code_simp
  from a b c d show ?thesis by simp
qed

section \<open>The threshold\<close>

text \<open>
  C2, as the code has it. For a rule on the semantic path whose forbidden claims do not
  match, with threshold \<open>N \<ge> 1\<close> and \<open>hits\<close> positive matches that have no negation
  nearby, where \<open>hits - N\<close> is in the range in which an int converts to a float (below
  \<open>2 ^ 1024 - 2 ^ 970\<close>, where the hits of any text that fits in memory are): if
  \<open>hits \<ge> N\<close> and the alignment step does not end the evaluation (it does not run,
  or it runs and finds neither a negated positive match nor an extra registration),
  the decision is FOUND with confidence \<open>min 1 (0.6 + 0.2 (hits - N))\<close>; if
  \<open>hits = N - 1\<close> the decision is not FOUND.
\<close>

theorem threshold_decides_found:
  assumes "semantic_path rule" and "rule_setup E rule = Inr su"
    and "find_all E (v_forbid_re su) doc_text = []"
    and "hits = int (length (clean_hits E su doc_text))"
    and "N = v_threshold su"
    and "1 \<le> N"
    and "hits - N < float_limit"
  shows "(N \<le> hits \<and>
          \<not> (align_runs su rule run_facts \<and>
             (negated_hits E su doc_text \<noteq> [] \<or>
              extra_regs E (fact_list (facts_in_use (ops_facts rule) run_facts)
                              ''registrations'') doc_text \<noteq> []))
          \<longrightarrow> (\<exists>out. evaluate_rule_semantic E rule doc_text run_facts = Inr out \<and>
                 decision out = FOUND \<and>
                 confidence out = min 1 (6 / 10 + 2 / 10 * of_int (hits - N))))
         \<and> (hits = N - 1
          \<longrightarrow> (\<exists>out. evaluate_rule_semantic E rule doc_text run_facts = Inr out \<and>
                 decision out \<noteq> FOUND))"
  using assms
  by (auto simp: evaluate_semantic semantic_steps_def Let_def forbidden_snips_def
      scan_positive_hits scan_positive_forb_snips decide_def found_confidence_def
      align_runs_def align_extras_def)

text \<open>Two instances with threshold 1: one clean hit gives FOUND with confidence 0.6,
  no hit gives MISSING.\<close>

theorem threshold_decides_found_witness:
  "semantic_path fuel_reserve_rule
   \<and> rule_setup py_re fuel_reserve_rule =
       Inr \<lparr>v_rule_type = ''affirm'', v_pos_re = rx_compile ''(fuel reserve)'',
            v_neg_re = None, v_forbid_re = None, v_threshold = 1, v_char_window = 72\<rparr>
   \<and> clean_hits py_re
        \<lparr>v_rule_type = ''affirm'', v_pos_re = rx_compile ''(fuel reserve)'',
         v_neg_re = None, v_forbid_re = None, v_threshold = 1, v_char_window = 72\<rparr>
        ''The fuel reserve requirement is 30 minutes.'' = [(4, 16)]
   \<and> evaluate_rule_semantic py_re fuel_reserve_rule
        ''The fuel reserve requirement is 30 minutes.'' None =
       Inr \<lparr>decision = FOUND,
            matched_positive = [''The fuel reserve requirement is 30 minutes.''],
            matched_forbidden = [], matched_pattern = ''fuel reserve'',
            confidence = 6 / 10, notes = []\<rparr>
   \<and> clean_hits py_re
        \<lparr>v_rule_type = ''affirm'', v_pos_re = rx_compile ''(fuel reserve)'',
         v_neg_re = None, v_forbid_re = None, v_threshold = 1, v_char_window = 72\<rparr>
        ''No reserves.'' = []
   \<and> evaluate_rule_semantic py_re fuel_reserve_rule ''No reserves.'' None =
       Inr \<lparr>decision = MISSING, matched_positive = [], matched_forbidden = [],
            matched_pattern = [], confidence = 0, notes = []\<rparr>"
proof -
  let ?su = "\<lparr>v_rule_type = ''affirm'', v_pos_re = rx_compile ''(fuel reserve)'',
              v_neg_re = None, v_forbid_re = None, v_threshold = 1::int,
              v_char_window = 72::int\<rparr>"
  let ?t = "''The fuel reserve requirement is 30 minutes.''"
  have h1: "semantic_path fuel_reserve_rule"
    by (simp add: semantic_path_def fuel_reserve_rule_def empty_rule_def)
  have h2: "rule_setup py_re fuel_reserve_rule = Inr ?su" by code_simp
  have h3: "find_all py_re (v_forbid_re ?su) doc_text = []" for doc_text
    by (simp add: find_all_def)
  have c1: "clean_hits py_re ?su ?t = [(4, 16)]" by code_simp
  have c2: "clean_hits py_re ?su ''No reserves.'' = []" by code_simp
  have h4: "1 = int (length (clean_hits py_re ?su ?t))" using c1 by simp
  have h4': "0 = int (length (clean_hits py_re ?su ''No reserves.''))" using c2 by simp
  have h5: "1 = v_threshold ?su" by simp
  have h6: "(1 :: int) \<le> 1" by simp
  have h7: "(1 :: int) - 1 < float_limit" "(0 :: int) - 1 < float_limit"
    by (simp_all add: float_limit_def)
  have full: "evaluate_rule_semantic py_re fuel_reserve_rule ?t None =
       Inr \<lparr>decision = FOUND, matched_positive = [?t],
            matched_forbidden = [], matched_pattern = ''fuel reserve'',
            confidence = 6 / 10, notes = []\<rparr>"
    by code_simp
  from threshold_decides_found [OF h1 h2 h3 h4 h5 h6 h7(1), of None]
  have a: "\<exists>out. evaluate_rule_semantic py_re fuel_reserve_rule ?t None = Inr out \<and>
             decision out = FOUND \<and> confidence out = min 1 (6 / 10 + 2 / 10 * of_int (1 - 1))"
    by (simp add: align_runs_def)
  from threshold_decides_found [OF h1 h2 h3 h4' h5 h6 h7(2), of None]
  have b: "\<exists>out. evaluate_rule_semantic py_re fuel_reserve_rule ''No reserves.'' None = Inr out \<and>
             decision out \<noteq> FOUND"
    by simp
  have none: "evaluate_rule_semantic py_re fuel_reserve_rule ''No reserves.'' None =
       Inr \<lparr>decision = MISSING, matched_positive = [], matched_forbidden = [],
            matched_pattern = [], confidence = 0, notes = []\<rparr>"
    by code_simp
  from h1 h2 c1 c2 full none a b show ?thesis by simp
qed

text \<open>
  An alignment rule with one clean positive hit and threshold 1, in a text with a
  registration the facts do not list: the forbidden claims do not match and the hits
  reach the threshold, yet the alignment step decides CONFLICT.
\<close>

theorem threshold_alignment_counterexample:
  "semantic_path fleet_fuel_rule
   \<and> rule_setup py_re fleet_fuel_rule =
       Inr \<lparr>v_rule_type = ''align_with_opspecs'', v_pos_re = rx_compile ''(fuel)'',
            v_neg_re = None, v_forbid_re = None, v_threshold = 1, v_char_window = 72\<rparr>
   \<and> find_all py_re None ''fuel 4X-ZZZ'' = []
   \<and> clean_hits py_re
        \<lparr>v_rule_type = ''align_with_opspecs'', v_pos_re = rx_compile ''(fuel)'',
         v_neg_re = None, v_forbid_re = None, v_threshold = 1, v_char_window = 72\<rparr>
        ''fuel 4X-ZZZ'' = [(0, 4)]
   \<and> evaluate_rule_semantic py_re fleet_fuel_rule ''fuel 4X-ZZZ'' None =
       Inr \<lparr>decision = CONFLICT, matched_positive = [''fuel 4X-ZZZ''],
            matched_forbidden = [''Extra reg in manuals: 4X-ZZZ''],
            matched_pattern = ''fuel'', confidence = 9 / 10,
            notes = ''Missing registrations in manuals: 4X-BHS''\<rparr>"
proof -
  have a: "semantic_path fleet_fuel_rule"
    by (simp add: semantic_path_def fleet_fuel_rule_def fleet_rule_def empty_rule_def)
  have b: "rule_setup py_re fleet_fuel_rule =
       Inr \<lparr>v_rule_type = ''align_with_opspecs'', v_pos_re = rx_compile ''(fuel)'',
            v_neg_re = None, v_forbid_re = None, v_threshold = 1, v_char_window = 72\<rparr>"
    by code_simp
  have c: "find_all py_re None ''fuel 4X-ZZZ'' = []" by (simp add: find_all_def)
  have d: "clean_hits py_re
        \<lparr>v_rule_type = ''align_with_opspecs'', v_pos_re = rx_compile ''(fuel)'',
         v_neg_re = None, v_forbid_re = None, v_threshold = 1, v_char_window = 72\<rparr>
        ''fuel 4X-ZZZ'' = [(0, 4)]"
    by code_simp
  have e: "evaluate_rule_semantic py_re fleet_fuel_rule ''fuel 4X-ZZZ'' None =
       Inr \<lparr>decision = CONFLICT, matched_positive = [''fuel 4X-ZZZ''],
            matched_forbidden = [''Extra reg in manuals: 4X-ZZZ''],
            matched_pattern = ''fuel'', confidence = 9 / 10,
            notes = ''Missing registrations in manuals: 4X-BHS''\<rparr>"
    by code_simp
  from a b c d e show ?thesis by simp
qed

section \<open>The empty text\<close>

lemma find_all_empty_text: "find_all E re [] = []"
  by (simp add: find_all_def split: option.splits)

lemma hits_empty_text:
  "clean_hits E su [] = []" "negated_hits E su [] = []" "forbidden_snips E su [] = []"
  by (simp_all add: clean_hits_def negated_hits_def forbidden_snips_def find_all_empty_text)

lemma find_reg_codes_empty_text: "find_reg_codes [] = []"
  by code_simp

lemma set_iter_ok_set: "set_iter_ok E \<Longrightarrow> set (set_iter E xs) = set xs"
proof -
  assume "set_iter_ok E"
  then have "mset (set_iter E xs) = mset (remdups xs)"
    by (simp add: set_iter_ok_def)
  then have "set_mset (mset (set_iter E xs)) = set_mset (mset (remdups xs))"
    by simp
  then show ?thesis by simp
qed

lemma extra_regs_empty_text: "set_iter_ok E \<Longrightarrow> extra_regs E regs [] = []"
proof -
  assume "set_iter_ok E"
  then have "set (set_iter E (find_reg_codes [])) = {}"
    by (simp add: set_iter_ok_set find_reg_codes_empty_text)
  then have "set_iter E (find_reg_codes []) = []" by simp
  then show ?thesis by (simp add: extra_regs_def)
qed

lemma scan_positive_empty_text:
  "scan_positive E [] pos neg w fs =
     \<lparr>pos_hits = 0, pos_snips = [], forb_snips = fs, first_pattern = []\<rparr>"
  by (simp add: scan_positive_def find_all_empty_text)

section \<open>A threshold below one\<close>

text \<open>
  C10, as the code has it. The threshold is not checked to be at least 1. For a rule on
  the semantic path whose threshold is 0 or negative and whose forbidden claims do not
  match, where \<open>hits - threshold\<close> is in the range in which an int converts to a float
  (below \<open>2 ^ 1024 - 2 ^ 970\<close>): if the alignment step does not end the evaluation (it
  does not run, or it finds neither a negated positive match nor an extra
  registration), the decision is FOUND with confidence
  \<open>min 1 (0.6 + 0.2 (hits - threshold))\<close>, also with no hit at all. Against the empty
  text every such rule, alignment rules with facts included, is FOUND with confidence
  \<open>min 1 (0.6 + 0.2 (0 - threshold))\<close>.
\<close>

theorem nonpositive_threshold_found:
  assumes "semantic_path rule" and "rule_setup E rule = Inr su"
    and "v_threshold su \<le> 0"
    and "find_all E (v_forbid_re su) doc_text = []"
    and "int (length (clean_hits E su doc_text)) - v_threshold su < float_limit"
  shows "(\<not> (align_runs su rule run_facts \<and>
             (negated_hits E su doc_text \<noteq> [] \<or>
              extra_regs E (fact_list (facts_in_use (ops_facts rule) run_facts)
                              ''registrations'') doc_text \<noteq> []))
          \<longrightarrow> (\<exists>out. evaluate_rule_semantic E rule doc_text run_facts = Inr out \<and>
                 decision out = FOUND \<and>
                 confidence out =
                   min 1 (6 / 10 + 2 / 10 *
                            of_int (int (length (clean_hits E su doc_text)) - v_threshold su))))
         \<and> (doc_text = [] \<and> set_iter_ok E
          \<longrightarrow> evaluate_rule_semantic E rule doc_text run_facts =
                Inr \<lparr>decision = FOUND, matched_positive = [], matched_forbidden = [],
                     matched_pattern = [],
                     confidence = min 1 (6 / 10 + 2 / 10 * of_int (0 - v_threshold su)),
                     notes = []\<rparr>)"
proof (intro conjI impI)
  assume "\<not> (align_runs su rule run_facts \<and>
             (negated_hits E su doc_text \<noteq> [] \<or>
              extra_regs E (fact_list (facts_in_use (ops_facts rule) run_facts)
                              ''registrations'') doc_text \<noteq> []))"
  with assms
  show "\<exists>out. evaluate_rule_semantic E rule doc_text run_facts = Inr out \<and>
                 decision out = FOUND \<and>
                 confidence out =
                   min 1 (6 / 10 + 2 / 10 *
                            of_int (int (length (clean_hits E su doc_text)) - v_threshold su))"
    by (auto simp: evaluate_semantic semantic_steps_def Let_def forbidden_snips_def
        scan_positive_hits scan_positive_forb_snips decide_def found_confidence_def
        align_runs_def align_extras_def)
next
  assume "doc_text = [] \<and> set_iter_ok E"
  with assms
  show "evaluate_rule_semantic E rule doc_text run_facts =
                Inr \<lparr>decision = FOUND, matched_positive = [], matched_forbidden = [],
                     matched_pattern = [],
                     confidence = min 1 (6 / 10 + 2 / 10 * of_int (0 - v_threshold su)),
                     notes = []\<rparr>"
    by (simp add: evaluate_semantic semantic_steps_def Let_def hits_empty_text
        scan_positive_empty_text decide_def found_confidence_def align_extras_def
        extra_regs_empty_text)
qed

text \<open>Instances: a threshold of \<open>-1\<close> against the empty text with no pattern at all
  gives FOUND with confidence 0.8; the alignment rule with threshold 0 is FOUND with
  confidence 0.6 in a text that names the expected registration only.\<close>

theorem nonpositive_threshold_found_witness:
  "semantic_path (string_threshold_rule ''-1'')
   \<and> rule_setup py_re (string_threshold_rule ''-1'') =
       Inr \<lparr>v_rule_type = ''affirm'', v_pos_re = None, v_neg_re = None, v_forbid_re = None,
            v_threshold = - 1, v_char_window = 72\<rparr>
   \<and> set_iter_ok py_re
   \<and> evaluate_rule_semantic py_re (string_threshold_rule ''-1'') [] None =
       Inr \<lparr>decision = FOUND, matched_positive = [], matched_forbidden = [],
            matched_pattern = [], confidence = 8 / 10, notes = []\<rparr>
   \<and> semantic_path fleet_zero_rule
   \<and> rule_setup py_re fleet_zero_rule =
       Inr \<lparr>v_rule_type = ''align_with_opspecs'', v_pos_re = None, v_neg_re = None,
            v_forbid_re = None, v_threshold = 0, v_char_window = 72\<rparr>
   \<and> extra_regs py_re [''4X-BHS''] ''4X-BHS'' = []
   \<and> evaluate_rule_semantic py_re fleet_zero_rule ''4X-BHS'' None =
       Inr \<lparr>decision = FOUND, matched_positive = [], matched_forbidden = [],
            matched_pattern = [], confidence = 6 / 10, notes = []\<rparr>"
proof -
  let ?su = "\<lparr>v_rule_type = ''affirm'', v_pos_re = None, v_neg_re = None,
              v_forbid_re = None :: rx option, v_threshold = - 1 :: int,
              v_char_window = 72 :: int\<rparr>"
  let ?sv = "\<lparr>v_rule_type = ''align_with_opspecs'', v_pos_re = None, v_neg_re = None,
              v_forbid_re = None :: rx option, v_threshold = 0 :: int,
              v_char_window = 72 :: int\<rparr>"
  have a1: "semantic_path (string_threshold_rule ''-1'')"
    by (simp add: semantic_path_def string_threshold_rule_def empty_rule_def)
  have a2: "rule_setup py_re (string_threshold_rule ''-1'') = Inr ?su" by code_simp
  have a3: "v_threshold ?su \<le> 0" by simp
  have a4: "find_all py_re (v_forbid_re ?su) [] = []" by (simp add: find_all_def)
  have a5: "int (length (clean_hits py_re ?su [])) - v_threshold ?su < float_limit"
    by (simp add: hits_empty_text float_limit_def)
  have ok: "set_iter_ok py_re" by (simp add: set_iter_ok_def py_re_def)
  from nonpositive_threshold_found [OF a1 a2 a3 a4 a5, of None] ok
  have r1: "evaluate_rule_semantic py_re (string_threshold_rule ''-1'') [] None =
       Inr \<lparr>decision = FOUND, matched_positive = [], matched_forbidden = [],
            matched_pattern = [], confidence = 8 / 10, notes = []\<rparr>"
    by simp
  have b1: "semantic_path fleet_zero_rule"
    by (simp add: semantic_path_def fleet_zero_rule_def fleet_rule_def empty_rule_def)
  have b2: "rule_setup py_re fleet_zero_rule = Inr ?sv" by code_simp
  have b3: "v_threshold ?sv \<le> 0" by simp
  have b4: "find_all py_re (v_forbid_re ?sv) ''4X-BHS'' = []" by (simp add: find_all_def)
  have b5: "extra_regs py_re [''4X-BHS''] ''4X-BHS'' = []" by code_simp
  have b6: "facts_in_use (ops_facts fleet_zero_rule) None = [(''registrations'', [''4X-BHS''])]"
    by code_simp
  have b7: "negated_hits py_re ?sv ''4X-BHS'' = []"
    by (simp add: negated_hits_def find_all_def)
  have b8: "int (length (clean_hits py_re ?sv ''4X-BHS'')) - v_threshold ?sv < float_limit"
    by (simp add: clean_hits_def find_all_def float_limit_def)
  from nonpositive_threshold_found [OF b1 b2 b3 b4 b8, of None]
  have "\<exists>out. evaluate_rule_semantic py_re fleet_zero_rule ''4X-BHS'' None = Inr out \<and>
          decision out = FOUND"
    by (auto simp: b5 b6 b7 fact_list_def)
  moreover have r2: "evaluate_rule_semantic py_re fleet_zero_rule ''4X-BHS'' None =
       Inr \<lparr>decision = FOUND, matched_positive = [], matched_forbidden = [],
            matched_pattern = [], confidence = 6 / 10, notes = []\<rparr>"
    by code_simp
  ultimately show ?thesis using a1 a2 ok r1 b1 b2 b5 by simp
qed

text \<open>
  The alignment rule with threshold 0 in a text with a registration the facts do not
  list: no forbidden claim matches, and the decision is CONFLICT. And a rule whose
  threshold is \<open>- (2 ^ 1024)\<close>: against the empty text the evaluation raises
  OverflowError.
\<close>

theorem nonpositive_threshold_alignment_counterexample:
  "evaluate_rule_semantic py_re huge_negative_threshold_rule [] None = Inl OverflowError
   \<and> semantic_path fleet_zero_rule
   \<and> rule_setup py_re fleet_zero_rule =
       Inr \<lparr>v_rule_type = ''align_with_opspecs'', v_pos_re = None, v_neg_re = None,
            v_forbid_re = None, v_threshold = 0, v_char_window = 72\<rparr>
   \<and> find_all py_re None ''4X-ZZZ'' = []
   \<and> evaluate_rule_semantic py_re fleet_zero_rule ''4X-ZZZ'' None =
       Inr \<lparr>decision = CONFLICT, matched_positive = [],
            matched_forbidden = [''Extra reg in manuals: 4X-ZZZ''],
            matched_pattern = [], confidence = 9 / 10,
            notes = ''Missing registrations in manuals: 4X-BHS''\<rparr>"
proof -
  have a: "semantic_path fleet_zero_rule"
    by (simp add: semantic_path_def fleet_zero_rule_def fleet_rule_def empty_rule_def)
  have b: "rule_setup py_re fleet_zero_rule =
       Inr \<lparr>v_rule_type = ''align_with_opspecs'', v_pos_re = None, v_neg_re = None,
            v_forbid_re = None, v_threshold = 0, v_char_window = 72\<rparr>"
    by code_simp
  have c: "find_all py_re None ''4X-ZZZ'' = []" by (simp add: find_all_def)
  have d: "evaluate_rule_semantic py_re fleet_zero_rule ''4X-ZZZ'' None =
       Inr \<lparr>decision = CONFLICT, matched_positive = [],
            matched_forbidden = [''Extra reg in manuals: 4X-ZZZ''],
            matched_pattern = [], confidence = 9 / 10,
            notes = ''Missing registrations in manuals: 4X-BHS''\<rparr>"
    by code_simp
  have e: "evaluate_rule_semantic py_re huge_negative_threshold_rule [] None = Inl OverflowError"
    by code_simp
  from a b c d e show ?thesis by simp
qed

section \<open>Rules against the empty text\<close>

lemma search_escaped_empty_text: "search_escaped r [] \<longleftrightarrow> r = []"
  by (simp add: search_escaped_def lower_def)

lemma legacy_checks_empty_text: "legacy_checks cs [] = legacy_missing"
proof (rule legacy_checks_no_hit, intro ballI impI)
  fix c p
  show "\<not> legacy_hit [] p"
    by (simp add: legacy_hit_def lower_def)
qed

lemma align_notes_empty_text:
  assumes "set_iter_ok E"
  shows "align_notes E f [] \<noteq> [] \<longleftrightarrow>
           (\<exists>r\<in>set (fact_list f ''registrations''). r \<noteq> []) \<or>
           (fact_list f ''area'' \<noteq> [] \<and> [] \<notin> set (fact_list f ''area''))"
proof -
  have regs: "missing_regs regs [] \<noteq> [] \<longleftrightarrow> (\<exists>r\<in>set regs. r \<noteq> [])" for regs
    by (auto simp: missing_regs_def search_escaped_empty_text filter_empty_conv)
  have "list_ex (\<lambda>a. search_escaped a []) (set_iter E (map upper area))
          \<longleftrightarrow> [] \<in> set area" for area
    using assms
    by (auto simp: list_ex_iff set_iter_ok_set search_escaped_empty_text upper_def)
  then have area: "area_unstated E area [] \<longleftrightarrow> area \<noteq> [] \<and> [] \<notin> set area" for area
    by (simp add: area_unstated_def)
  show ?thesis
    unfolding align_notes_def Let_def using regs area by auto
qed

text \<open>
  C6, as the code has it. Against the empty text a rule with legacy checks is MISSING
  with confidence 0.0. A rule on the semantic path whose patterns compile and whose
  threshold converts to an integer of at least 1 is MISSING as well, and no exception
  is raised; its confidence is 0.0, except when the alignment step runs and has a
  note, where the confidence is 0.2 and the notes are reported. On the empty text the
  alignment step has a note exactly when the facts list a non-empty registration, or
  list areas none of which is the empty string.
\<close>

theorem empty_text_missing:
  "(checks rule = Some cs \<and> cs \<noteq> []
     \<longrightarrow> evaluate_rule_semantic E rule [] run_facts =
           Inr \<lparr>decision = MISSING, matched_positive = [], matched_forbidden = [],
                matched_pattern = [], confidence = 0,
                notes = ''Legacy contains_any not found''\<rparr>)
   \<and> (semantic_path rule \<and> rule_setup E rule = Inr su \<and> 1 \<le> v_threshold su \<and> set_iter_ok E
     \<longrightarrow> evaluate_rule_semantic E rule [] run_facts =
           Inr (if align_runs su rule run_facts \<and>
                   align_notes E (facts_in_use (ops_facts rule) run_facts) [] \<noteq> []
                then \<lparr>decision = MISSING, matched_positive = [], matched_forbidden = [],
                      matched_pattern = [], confidence = 2 / 10,
                      notes = join ''; ''
                                (align_notes E (facts_in_use (ops_facts rule) run_facts) [])\<rparr>
                else \<lparr>decision = MISSING, matched_positive = [], matched_forbidden = [],
                      matched_pattern = [], confidence = 0, notes = []\<rparr>))
   \<and> (set_iter_ok E
     \<longrightarrow> (align_notes E (facts_in_use (ops_facts rule) run_facts) [] \<noteq> [] \<longleftrightarrow>
            (\<exists>r\<in>set (fact_list (facts_in_use (ops_facts rule) run_facts) ''registrations'').
               r \<noteq> []) \<or>
            (fact_list (facts_in_use (ops_facts rule) run_facts) ''area'' \<noteq> [] \<and>
             [] \<notin> set (fact_list (facts_in_use (ops_facts rule) run_facts) ''area''))))"
proof (intro conjI impI)
  assume "checks rule = Some cs \<and> cs \<noteq> []"
  then show "evaluate_rule_semantic E rule [] run_facts =
           Inr \<lparr>decision = MISSING, matched_positive = [], matched_forbidden = [],
                matched_pattern = [], confidence = 0,
                notes = ''Legacy contains_any not found''\<rparr>"
    by (simp add: evaluate_legacy legacy_checks_empty_text legacy_missing_def)
next
  assume "semantic_path rule \<and> rule_setup E rule = Inr su \<and> 1 \<le> v_threshold su \<and> set_iter_ok E"
  then show "evaluate_rule_semantic E rule [] run_facts =
           Inr (if align_runs su rule run_facts \<and>
                   align_notes E (facts_in_use (ops_facts rule) run_facts) [] \<noteq> []
                then \<lparr>decision = MISSING, matched_positive = [], matched_forbidden = [],
                      matched_pattern = [], confidence = 2 / 10,
                      notes = join ''; ''
                                (align_notes E (facts_in_use (ops_facts rule) run_facts) [])\<rparr>
                else \<lparr>decision = MISSING, matched_positive = [], matched_forbidden = [],
                      matched_pattern = [], confidence = 0, notes = []\<rparr>)"
    by (simp add: evaluate_semantic semantic_steps_def Let_def hits_empty_text
        scan_positive_empty_text decide_def align_extras_def extra_regs_empty_text
        align_runs_def)
next
  assume "set_iter_ok E"
  then show "align_notes E (facts_in_use (ops_facts rule) run_facts) [] \<noteq> [] \<longleftrightarrow>
            (\<exists>r\<in>set (fact_list (facts_in_use (ops_facts rule) run_facts) ''registrations'').
               r \<noteq> []) \<or>
            (fact_list (facts_in_use (ops_facts rule) run_facts) ''area'' \<noteq> [] \<and>
             [] \<notin> set (fact_list (facts_in_use (ops_facts rule) run_facts) ''area''))"
    by (rule align_notes_empty_text)
qed

text \<open>Instances: a legacy rule, the fuel-reserve rule, and an alignment rule that
  takes the area from the run-level facts.\<close>

theorem empty_text_missing_witness:
  "evaluate_rule_semantic py_re
     (empty_rule\<lparr>checks := Some [\<lparr>chk_type = ''contains_any'', chk_patterns = [''fuel'']\<rparr>]\<rparr>)
     [] None =
     Inr \<lparr>decision = MISSING, matched_positive = [], matched_forbidden = [],
          matched_pattern = [], confidence = 0, notes = ''Legacy contains_any not found''\<rparr>
   \<and> semantic_path fuel_reserve_rule
   \<and> set_iter_ok py_re
   \<and> rule_setup py_re fuel_reserve_rule =
       Inr \<lparr>v_rule_type = ''affirm'', v_pos_re = rx_compile ''(fuel reserve)'',
            v_neg_re = None, v_forbid_re = None, v_threshold = 1, v_char_window = 72\<rparr>
   \<and> evaluate_rule_semantic py_re fuel_reserve_rule [] None =
       Inr \<lparr>decision = MISSING, matched_positive = [], matched_forbidden = [],
            matched_pattern = [], confidence = 0, notes = []\<rparr>
   \<and> evaluate_rule_semantic py_re (empty_rule\<lparr>rule_type := Some ''align_with_opspecs''\<rparr>)
       [] (Some [(''area'', [''Israel''])]) =
       Inr \<lparr>decision = MISSING, matched_positive = [], matched_forbidden = [],
            matched_pattern = [], confidence = 2 / 10,
            notes = ''Area from OpsSpecs not clearly stated in manuals''\<rparr>"
proof -
  let ?legacy = "empty_rule\<lparr>checks := Some [\<lparr>chk_type = ''contains_any'',
                                              chk_patterns = [''fuel'']\<rparr>]\<rparr>"
  let ?area = "empty_rule\<lparr>rule_type := Some ''align_with_opspecs''\<rparr>"
  let ?su = "\<lparr>v_rule_type = ''affirm'', v_pos_re = rx_compile ''(fuel reserve)'',
              v_neg_re = None, v_forbid_re = None, v_threshold = 1 :: int,
              v_char_window = 72 :: int\<rparr>"
  let ?sv = "\<lparr>v_rule_type = ''align_with_opspecs'', v_pos_re = None :: rx option,
              v_neg_re = None, v_forbid_re = None, v_threshold = 1 :: int,
              v_char_window = 72 :: int\<rparr>"
  have ok: "set_iter_ok py_re" by (simp add: set_iter_ok_def py_re_def)
  have l: "checks ?legacy = Some [\<lparr>chk_type = ''contains_any'', chk_patterns = [''fuel'']\<rparr>]"
    by simp
  from empty_text_missing [of ?legacy _ py_re None] l
  have r1: "evaluate_rule_semantic py_re ?legacy [] None =
     Inr \<lparr>decision = MISSING, matched_positive = [], matched_forbidden = [],
          matched_pattern = [], confidence = 0, notes = ''Legacy contains_any not found''\<rparr>"
    by simp
  have s1: "semantic_path fuel_reserve_rule"
    by (simp add: semantic_path_def fuel_reserve_rule_def empty_rule_def)
  have s2: "rule_setup py_re fuel_reserve_rule = Inr ?su" by code_simp
  from empty_text_missing [of fuel_reserve_rule _ py_re None ?su] s1 s2 ok
  have r2: "evaluate_rule_semantic py_re fuel_reserve_rule [] None =
       Inr \<lparr>decision = MISSING, matched_positive = [], matched_forbidden = [],
            matched_pattern = [], confidence = 0, notes = []\<rparr>"
    by (simp add: align_runs_def)
  have t1: "semantic_path ?area" by (simp add: semantic_path_def empty_rule_def)
  have t2: "rule_setup py_re ?area = Inr ?sv" by code_simp
  have t3: "align_notes py_re [(''area'', [''Israel''])] [] =
              [''Area from OpsSpecs not clearly stated in manuals'']"
    by code_simp
  have t4: "facts_in_use (ops_facts ?area) (Some [(''area'', [''Israel''])]) = [(''area'', [''Israel''])]"
    by code_simp
  have t5: "align_runs ?sv ?area (Some [(''area'', [''Israel''])])"
    by (simp add: align_runs_def truthy_def)
  from empty_text_missing [of ?area _ py_re "Some [(''area'', [''Israel''])]" ?sv] t1 t2 ok t5
  have r3: "evaluate_rule_semantic py_re ?area [] (Some [(''area'', [''Israel''])]) =
       Inr \<lparr>decision = MISSING, matched_positive = [], matched_forbidden = [],
            matched_pattern = [], confidence = 2 / 10,
            notes = ''Area from OpsSpecs not clearly stated in manuals''\<rparr>"
    unfolding t4 t3 by simp
  from r1 s1 ok s2 r2 r3 show ?thesis by simp
qed

text \<open>
  The alignment rule with the registration \<^verbatim>\<open>4X-BHS\<close> as its fact, against the empty
  text: the decision is MISSING, the confidence is 0.2 and not 0.0.
\<close>

theorem empty_text_alignment_counterexample:
  "evaluate_rule_semantic py_re fleet_rule [] None =
     Inr \<lparr>decision = MISSING, matched_positive = [], matched_forbidden = [],
          matched_pattern = [], confidence = 2 / 10,
          notes = ''Missing registrations in manuals: 4X-BHS''\<rparr>
   \<and> (2 / 10 :: rat) \<noteq> 0"
proof -
  have "evaluate_rule_semantic py_re fleet_rule [] None =
     Inr \<lparr>decision = MISSING, matched_positive = [], matched_forbidden = [],
          matched_pattern = [], confidence = 2 / 10,
          notes = ''Missing registrations in manuals: 4X-BHS''\<rparr>"
    by code_simp
  then show ?thesis by simp
qed

section \<open>Alignment with the facts\<close>

lemma set_extra_regs:
  assumes "set_iter_ok E"
  shows "set (extra_regs E regs doc_text) =
           {c \<in> set (find_reg_codes doc_text). regs \<noteq> [] \<and> upper c \<notin> upper ` set regs}"
  using assms by (auto simp: extra_regs_def set_iter_ok_set)

lemma extra_code_4X_ZZZ:
  assumes "set_iter_ok E" and "''4X-ZZZ'' \<in> set (find_reg_codes doc_text)"
  shows "extra_regs E [''4X-BHS''] doc_text \<noteq> []"
proof -
  have "upper ''4X-ZZZ'' \<noteq> upper ''4X-BHS''" by code_simp
  with assms have "''4X-ZZZ'' \<in> set (extra_regs E [''4X-BHS''] doc_text)"
    by (simp add: set_extra_regs)
  then show ?thesis by auto
qed

text \<open>
  C4, as the code has it. Take a rule on the semantic path with rule type
  \<^verbatim>\<open>align_with_opspecs\<close>, facts available, and forbidden claims that do not match. The
  facts in use are those of the rule when it has any, else those of the run. If the
  text holds an extra registration (a code of the registration shape whose upper-case
  form is not among the upper-cased registrations of the facts), the decision is
  CONFLICT with confidence 0.9, whatever the positive hits; the extras are reported
  after the negated positive matches, and the notes are the joined alignment notes or
  \<^verbatim>\<open>Conflict with ops_facts\<close>. If there is no extra and no negated positive match,
  and the alignment has notes and the clean hits are below the threshold, the decision
  is MISSING with confidence 0.2 and the joined notes. With the registrations
  \<^verbatim>\<open>4X-BHS\<close> and a text in which \<^verbatim>\<open>4X-ZZZ\<close> occurs as a code, the decision is CONFLICT.
\<close>

theorem alignment_decision:
  assumes "semantic_path rule" and "rule_setup E rule = Inr su"
    and "v_rule_type su = ''align_with_opspecs''"
    and "truthy run_facts \<or> truthy (ops_facts rule)"
    and "find_all E (v_forbid_re su) doc_text = []"
    and "f = facts_in_use (ops_facts rule) run_facts"
    and "regs = fact_list f ''registrations''"
  shows "(truthy (ops_facts rule) \<longrightarrow> f = the (ops_facts rule))
       \<and> (\<not> truthy (ops_facts rule) \<longrightarrow> f = the run_facts)
       \<and> (set_iter_ok E \<longrightarrow>
            set (extra_regs E regs doc_text) =
              {c \<in> set (find_reg_codes doc_text). regs \<noteq> [] \<and> upper c \<notin> upper ` set regs})
       \<and> (extra_regs E regs doc_text \<noteq> [] \<longrightarrow>
            (\<exists>out. evaluate_rule_semantic E rule doc_text run_facts = Inr out \<and>
               decision out = CONFLICT \<and> confidence out = 9 / 10 \<and>
               matched_positive out =
                 map (\<lambda>m. snippet doc_text (fst m) (snd m) 120) (clean_hits E su doc_text) \<and>
               matched_forbidden out =
                 map (\<lambda>m. snippet doc_text (fst m) (snd m) 120) (negated_hits E su doc_text)
                 @ map (\<lambda>x. ''Extra reg in manuals: '' @ x) (extra_regs E regs doc_text) \<and>
               notes out = (if align_notes E f doc_text \<noteq> []
                            then join ''; '' (align_notes E f doc_text)
                            else ''Conflict with ops_facts'')))
       \<and> (extra_regs E regs doc_text = [] \<and> negated_hits E su doc_text = [] \<and>
          align_notes E f doc_text \<noteq> [] \<and>
          int (length (clean_hits E su doc_text)) < v_threshold su \<longrightarrow>
            (\<exists>out. evaluate_rule_semantic E rule doc_text run_facts = Inr out \<and>
               decision out = MISSING \<and> confidence out = 2 / 10 \<and>
               notes out = join ''; '' (align_notes E f doc_text)))
       \<and> (regs = [''4X-BHS''] \<and> ''4X-ZZZ'' \<in> set (find_reg_codes doc_text) \<and> set_iter_ok E \<longrightarrow>
            (\<exists>out. evaluate_rule_semantic E rule doc_text run_facts = Inr out \<and>
               decision out = CONFLICT))"
proof -
  have fs: "forbidden_snips E su doc_text = []"
    using assms(5) by (simp add: forbidden_snips_def)
  have steps: "evaluate_rule_semantic E rule doc_text run_facts =
                 semantic_steps E su (ops_facts rule) doc_text run_facts"
    using assms(1,2) by (simp add: evaluate_semantic)
  have conflict: "\<exists>out. evaluate_rule_semantic E rule doc_text run_facts = Inr out \<and>
               decision out = CONFLICT \<and> confidence out = 9 / 10 \<and>
               matched_positive out =
                 map (\<lambda>m. snippet doc_text (fst m) (snd m) 120) (clean_hits E su doc_text) \<and>
               matched_forbidden out =
                 map (\<lambda>m. snippet doc_text (fst m) (snd m) 120) (negated_hits E su doc_text)
                 @ map (\<lambda>x. ''Extra reg in manuals: '' @ x) (extra_regs E regs doc_text) \<and>
               notes out = (if align_notes E f doc_text \<noteq> []
                            then join ''; '' (align_notes E f doc_text)
                            else ''Conflict with ops_facts'')"
    if "extra_regs E regs doc_text \<noteq> []"
    using that assms(3,4,6,7) fs unfolding steps
    by (simp add: semantic_steps_def Let_def scan_positive_forb_snips scan_positive_pos_snips
        align_extras_def)
  have missing: "\<exists>out. evaluate_rule_semantic E rule doc_text run_facts = Inr out \<and>
               decision out = MISSING \<and> confidence out = 2 / 10 \<and>
               notes out = join ''; '' (align_notes E f doc_text)"
    if "extra_regs E regs doc_text = [] \<and> negated_hits E su doc_text = [] \<and>
        align_notes E f doc_text \<noteq> [] \<and>
        int (length (clean_hits E su doc_text)) < v_threshold su"
    using that assms(3,4,6,7) fs unfolding steps
    by (simp add: semantic_steps_def Let_def scan_positive_forb_snips scan_positive_hits
        align_extras_def)
  have scenario: "\<exists>out. evaluate_rule_semantic E rule doc_text run_facts = Inr out \<and>
               decision out = CONFLICT"
    if "regs = [''4X-BHS''] \<and> ''4X-ZZZ'' \<in> set (find_reg_codes doc_text) \<and> set_iter_ok E"
  proof -
    from that have "extra_regs E regs doc_text \<noteq> []"
      by (simp add: extra_code_4X_ZZZ)
    from conflict [OF this] show ?thesis by blast
  qed
  have precedence: "(truthy (ops_facts rule) \<longrightarrow> f = the (ops_facts rule))
       \<and> (\<not> truthy (ops_facts rule) \<longrightarrow> f = the run_facts)"
    using assms(4,6) by (auto simp: facts_in_use_def)
  from precedence conflict missing scenario set_extra_regs [of E regs doc_text]
  show ?thesis by blast
qed

text \<open>Instances: the scenario of the extra registration, and a text without any code,
  where the expected registration is missing and nothing else is found.\<close>

theorem alignment_decision_witness:
  "semantic_path fleet_rule
   \<and> rule_setup py_re fleet_rule =
       Inr \<lparr>v_rule_type = ''align_with_opspecs'', v_pos_re = None, v_neg_re = None,
            v_forbid_re = None, v_threshold = 1, v_char_window = 72\<rparr>
   \<and> truthy (ops_facts fleet_rule)
   \<and> set_iter_ok py_re
   \<and> facts_in_use (ops_facts fleet_rule) None = [(''registrations'', [''4X-BHS''])]
   \<and> find_reg_codes ''Fleet: 4X-BHS and 4X-ZZZ.'' = [''4X-BHS'', ''4X-ZZZ'']
   \<and> extra_regs py_re [''4X-BHS''] ''Fleet: 4X-BHS and 4X-ZZZ.'' = [''4X-ZZZ'']
   \<and> evaluate_rule_semantic py_re fleet_rule ''Fleet: 4X-BHS and 4X-ZZZ.'' None =
       Inr \<lparr>decision = CONFLICT, matched_positive = [],
            matched_forbidden = [''Extra reg in manuals: 4X-ZZZ''], matched_pattern = [],
            confidence = 9 / 10, notes = ''Conflict with ops_facts''\<rparr>
   \<and> extra_regs py_re [''4X-BHS''] ''no codes here'' = []
   \<and> align_notes py_re [(''registrations'', [''4X-BHS''])] ''no codes here'' =
       [''Missing registrations in manuals: 4X-BHS'']
   \<and> evaluate_rule_semantic py_re fleet_rule ''no codes here'' None =
       Inr \<lparr>decision = MISSING, matched_positive = [], matched_forbidden = [],
            matched_pattern = [], confidence = 2 / 10,
            notes = ''Missing registrations in manuals: 4X-BHS''\<rparr>"
proof -
  let ?su = "\<lparr>v_rule_type = ''align_with_opspecs'', v_pos_re = None :: rx option,
              v_neg_re = None, v_forbid_re = None, v_threshold = 1 :: int,
              v_char_window = 72 :: int\<rparr>"
  let ?f = "[(''registrations'', [''4X-BHS''])]"
  let ?t = "''Fleet: 4X-BHS and 4X-ZZZ.''"
  let ?u = "''no codes here''"
  have h1: "semantic_path fleet_rule"
    by (simp add: semantic_path_def fleet_rule_def empty_rule_def)
  have h2: "rule_setup py_re fleet_rule = Inr ?su" by code_simp
  have h3: "v_rule_type ?su = ''align_with_opspecs''" by simp
  have tr: "truthy (ops_facts fleet_rule)" by code_simp
  then have h4: "truthy None \<or> truthy (ops_facts fleet_rule)" by simp
  have h5: "find_all py_re (v_forbid_re ?su) doc_text = []" for doc_text
    by (simp add: find_all_def)
  have fu: "facts_in_use (ops_facts fleet_rule) None = ?f" by code_simp
  then have h6: "?f = facts_in_use (ops_facts fleet_rule) None" by simp
  have h7: "[''4X-BHS''] = fact_list ?f ''registrations''" by (simp add: fact_list_def)
  have ok: "set_iter_ok py_re" by (simp add: set_iter_ok_def py_re_def)
  have codes: "find_reg_codes ?t = [''4X-BHS'', ''4X-ZZZ'']" by code_simp
  have ex1: "extra_regs py_re [''4X-BHS''] ?t = [''4X-ZZZ'']" by code_simp
  have ex2: "extra_regs py_re [''4X-BHS''] ?u = []" by code_simp
  have no1: "align_notes py_re ?f ?t = []" by code_simp
  have no2: "align_notes py_re ?f ?u = [''Missing registrations in manuals: 4X-BHS'']"
    by code_simp
  have hits: "clean_hits py_re ?su doc_text = []" "negated_hits py_re ?su doc_text = []"
    for doc_text
    by (simp_all add: clean_hits_def negated_hits_def find_all_def)
  from alignment_decision [OF h1 h2 h3 h4 h5 h6 h7, of ?t] codes ok
  have a: "\<exists>out. evaluate_rule_semantic py_re fleet_rule ?t None = Inr out \<and>
             decision out = CONFLICT"
    by simp
  from alignment_decision [OF h1 h2 h3 h4 h5 h6 h7, of ?t] ex1
  have b: "\<exists>out. evaluate_rule_semantic py_re fleet_rule ?t None = Inr out \<and>
             decision out = CONFLICT \<and> confidence out = 9 / 10 \<and>
             matched_positive out = [] \<and>
             matched_forbidden out = [''Extra reg in manuals: 4X-ZZZ''] \<and>
             notes out = ''Conflict with ops_facts''"
    by (simp add: hits no1)
  from alignment_decision [OF h1 h2 h3 h4 h5 h6 h7, of ?u] ex2
  have c: "\<exists>out. evaluate_rule_semantic py_re fleet_rule ?u None = Inr out \<and>
             decision out = MISSING \<and> confidence out = 2 / 10 \<and>
             notes out = ''Missing registrations in manuals: 4X-BHS''"
    by (simp add: hits no2)
  have r1: "evaluate_rule_semantic py_re fleet_rule ?t None =
       Inr \<lparr>decision = CONFLICT, matched_positive = [],
            matched_forbidden = [''Extra reg in manuals: 4X-ZZZ''], matched_pattern = [],
            confidence = 9 / 10, notes = ''Conflict with ops_facts''\<rparr>"
    by code_simp
  have r2: "evaluate_rule_semantic py_re fleet_rule ?u None =
       Inr \<lparr>decision = MISSING, matched_positive = [], matched_forbidden = [],
            matched_pattern = [], confidence = 2 / 10,
            notes = ''Missing registrations in manuals: 4X-BHS''\<rparr>"
    by code_simp
  from a b c h1 h2 tr ok fu codes ex1 ex2 no2 r1 r2 show ?thesis by simp
qed

text \<open>
  An alignment rule with a forbidden claim that matches, in a text that also holds an
  extra registration: the forbidden-claim guard decides first, and the confidence is
  0.95, not 0.9.
\<close>

theorem alignment_after_forbidden_counterexample:
  "rule_setup py_re fleet_night_rule =
     Inr \<lparr>v_rule_type = ''align_with_opspecs'', v_pos_re = None, v_neg_re = None,
          v_forbid_re = rx_compile ''(night)'', v_threshold = 1, v_char_window = 72\<rparr>
   \<and> truthy (ops_facts fleet_night_rule)
   \<and> extra_regs py_re [''4X-BHS''] ''night 4X-ZZZ'' = [''4X-ZZZ'']
   \<and> evaluate_rule_semantic py_re fleet_night_rule ''night 4X-ZZZ'' None =
       Inr \<lparr>decision = CONFLICT, matched_positive = [],
            matched_forbidden = [''night 4X-ZZZ''], matched_pattern = [],
            confidence = 95 / 100, notes = ''Forbidden claim(s) present''\<rparr>
   \<and> (95 / 100 :: rat) \<noteq> 9 / 10"
proof -
  have a: "rule_setup py_re fleet_night_rule =
     Inr \<lparr>v_rule_type = ''align_with_opspecs'', v_pos_re = None, v_neg_re = None,
          v_forbid_re = rx_compile ''(night)'', v_threshold = 1, v_char_window = 72\<rparr>"
    by code_simp
  have b: "truthy (ops_facts fleet_night_rule)" by code_simp
  have c: "extra_regs py_re [''4X-BHS''] ''night 4X-ZZZ'' = [''4X-ZZZ'']" by code_simp
  have d: "evaluate_rule_semantic py_re fleet_night_rule ''night 4X-ZZZ'' None =
       Inr \<lparr>decision = CONFLICT, matched_positive = [],
            matched_forbidden = [''night 4X-ZZZ''], matched_pattern = [],
            confidence = 95 / 100, notes = ''Forbidden claim(s) present''\<rparr>"
    by code_simp
  from a b c d show ?thesis by simp
qed

section \<open>Negation near a positive match\<close>

lemma window_has_negative_Some:
  "window_has_negative E t (s, e) (Some nre) w =
     re_search E nre (slice t (nat (max 0 (int s - w))) (nat (min (int (length t)) (int e + w))))"
  by (simp add: window_has_negative_def Let_def)

lemma hits_split:
  "int (length (clean_hits E su t)) =
     int (length (find_all E (v_pos_re su) t)) - int (length (negated_hits E su t))"
proof -
  have "length (find_all E (v_pos_re su) t) =
          length (negated_hits E su t) + length (clean_hits E su t)"
    unfolding clean_hits_def negated_hits_def by (rule sum_length_filter_compl [symmetric])
  then show ?thesis by simp
qed

lemma semantic_outcome_contradictions:
  assumes "semantic_steps E su rf t runf = Inr out"
    and "decision out = REVIEW \<or> (decision out = CONFLICT \<and> confidence out = 9 / 10)"
    and "m \<in> set (negated_hits E su t)"
  shows "snippet t (fst m) (snd m) 120 \<in> set (matched_forbidden out)"
  using assms
  by (auto simp: semantic_steps_def Let_def decide_def scan_positive_forb_snips
      split: if_splits sum.splits)

text \<open>
  What the code does with a positive match \<open>(s, e)\<close> for which the negative
  alternation has a match in the text between \<open>s - w\<close> and \<open>e + w\<close>, clipped to the
  text, where \<open>w\<close> is six times the window in tokens (and at least 0). The match is not
  counted: the hit counter is the number of positive matches less the negated ones.
  Its snippet is put on the list of contradictions, and it is part of the
  \<^verbatim>\<open>matched_forbidden\<close> of the outcome when the decision is REVIEW or the CONFLICT of
  the alignment step.
\<close>

lemma negated_match_collected:
  assumes "semantic_path rule" and "rule_setup E rule = Inr su"
    and "(s, e) \<in> set (find_all E (v_pos_re su) doc_text)"
    and "v_neg_re su = Some nre"
    and "int_field (negation_window_tokens rule) 12 = Inr tokens"
    and "w = max 0 (tokens * 6)"
    and "re_search E nre (slice doc_text (nat (max 0 (int s - w)))
                                 (nat (min (int (length doc_text)) (int e + w))))"
    and "st = scan_positive E doc_text (v_pos_re su) (v_neg_re su) (v_char_window su)
                (forbidden_snips E su doc_text)"
  shows "(s, e) \<in> set (negated_hits E su doc_text)
       \<and> (s, e) \<notin> set (clean_hits E su doc_text)
       \<and> pos_hits st = int (length (find_all E (v_pos_re su) doc_text))
                        - int (length (negated_hits E su doc_text))
       \<and> snippet doc_text s e 120 \<in> set (forb_snips st)
       \<and> (\<forall>out. evaluate_rule_semantic E rule doc_text run_facts = Inr out \<and>
                (decision out = REVIEW \<or> (decision out = CONFLICT \<and> confidence out = 9 / 10))
              \<longrightarrow> snippet doc_text s e 120 \<in> set (matched_forbidden out))"
proof -
  from assms(2,5,6) have win: "v_char_window su = w"
    using rule_setup_fields(6) [of E rule su] by auto
  with assms(4,7) have neg: "window_has_negative E doc_text (s, e) (v_neg_re su) (v_char_window su)"
    by (simp add: window_has_negative_Some)
  with assms(3) have a: "(s, e) \<in> set (negated_hits E su doc_text)"
    by (simp add: negated_hits_def)
  from neg have b: "(s, e) \<notin> set (clean_hits E su doc_text)"
    by (simp add: clean_hits_def)
  have c: "pos_hits st = int (length (find_all E (v_pos_re su) doc_text))
                        - int (length (negated_hits E su doc_text))"
    unfolding assms(8) scan_positive_hits by (rule hits_split)
  from a have d: "snippet doc_text s e 120 \<in> set (forb_snips st)"
    unfolding assms(8) scan_positive_forb_snips by force
  have e: "snippet doc_text s e 120 \<in> set (matched_forbidden out)"
    if "evaluate_rule_semantic E rule doc_text run_facts = Inr out \<and>
        (decision out = REVIEW \<or> (decision out = CONFLICT \<and> confidence out = 9 / 10))" for out
  proof -
    from that assms(1,2)
    have out: "semantic_steps E su (ops_facts rule) doc_text run_facts = Inr out"
      by (simp add: evaluate_semantic)
    from semantic_outcome_contradictions [OF out, of "(s, e)"] that a
    show ?thesis by simp
  qed
  from a b c d e show ?thesis by simp
qed

text \<open>
  C3. The specification asks that a positive match with a negation in its window does
  not count towards the threshold and appears in the contradiction evidence of the
  outcome instead, and that in the scenario of the text
  \<^verbatim>\<open>There is no fuel reserve requirement.\<close> the decision is MISSING with a non-empty
  \<^verbatim>\<open>matched_forbidden\<close>. The code does not count the match and collects its snippet,
  with the comment that it will downgrade to REVIEW if there is no clean evidence; but
  its test for REVIEW asks for a clean snippet as well, and the final MISSING returns
  empty lists. In the scenario the only positive match, at 12 to 24, has \<^verbatim>\<open>no fuel\<close>
  within 18 characters; the scan leaves no hit, no positive snippet and the snippet of
  the match on the list of contradictions; and the outcome is MISSING with an empty
  \<^verbatim>\<open>matched_forbidden\<close>.
\<close>

theorem negated_match_scenario_outcome:
  "rule_setup py_re no_fuel_rule =
     Inr \<lparr>v_rule_type = ''affirm'', v_pos_re = rx_compile ''(fuel reserve)'',
          v_neg_re = rx_compile (''(no'' @ [CHR 0x5C] @ ''s+fuel)''),
          v_forbid_re = None, v_threshold = 1, v_char_window = 18\<rparr>
   \<and> find_all py_re (rx_compile ''(fuel reserve)'') ''There is no fuel reserve requirement.''
       = [(12, 24)]
   \<and> window_has_negative py_re ''There is no fuel reserve requirement.'' (12, 24)
        (rx_compile (''(no'' @ [CHR 0x5C] @ ''s+fuel)'')) 18
   \<and> scan_positive py_re ''There is no fuel reserve requirement.''
        (rx_compile ''(fuel reserve)'') (rx_compile (''(no'' @ [CHR 0x5C] @ ''s+fuel)'')) 18 []
       = \<lparr>pos_hits = 0, pos_snips = [],
          forb_snips = [''There is no fuel reserve requirement.''], first_pattern = []\<rparr>
   \<and> evaluate_rule_semantic py_re no_fuel_rule ''There is no fuel reserve requirement.'' None =
       Inr \<lparr>decision = MISSING, matched_positive = [], matched_forbidden = [],
            matched_pattern = [], confidence = 0, notes = []\<rparr>"
proof -
  have s: "rule_setup py_re no_fuel_rule =
     Inr \<lparr>v_rule_type = ''affirm'', v_pos_re = rx_compile ''(fuel reserve)'',
          v_neg_re = rx_compile (''(no'' @ [CHR 0x5C] @ ''s+fuel)''),
          v_forbid_re = None, v_threshold = 1, v_char_window = 18\<rparr>"
    by code_simp
  have a: "find_all py_re (rx_compile ''(fuel reserve)'')
             ''There is no fuel reserve requirement.'' = [(12, 24)]"
    by code_simp
  have b: "window_has_negative py_re ''There is no fuel reserve requirement.'' (12, 24)
        (rx_compile (''(no'' @ [CHR 0x5C] @ ''s+fuel)'')) 18"
    by code_simp
  have c: "scan_positive py_re ''There is no fuel reserve requirement.''
        (rx_compile ''(fuel reserve)'') (rx_compile (''(no'' @ [CHR 0x5C] @ ''s+fuel)'')) 18 []
       = \<lparr>pos_hits = 0, pos_snips = [],
          forb_snips = [''There is no fuel reserve requirement.''], first_pattern = []\<rparr>"
    by code_simp
  have d: "evaluate_rule_semantic py_re no_fuel_rule
             ''There is no fuel reserve requirement.'' None =
       Inr \<lparr>decision = MISSING, matched_positive = [], matched_forbidden = [],
            matched_pattern = [], confidence = 0, notes = []\<rparr>"
    by code_simp
  from s a b c d show ?thesis by simp
qed

text \<open>With a clean match as well, and threshold 2, the same negated match is
  reported: the outcome is REVIEW, with its snippet among the contradictions.\<close>

lemma negated_match_review_instance:
  "find_all py_re (rx_compile ''(fuel reserve)'')
     ''fuel reserve ok. There is no fuel reserve.'' = [(0, 12), (29, 41)]
   \<and> evaluate_rule_semantic py_re no_fuel_twice_rule
        ''fuel reserve ok. There is no fuel reserve.'' None =
       Inr \<lparr>decision = REVIEW,
            matched_positive = [''fuel reserve ok. There is no fuel reserve.''],
            matched_forbidden = [''fuel reserve ok. There is no fuel reserve.''],
            matched_pattern = ''fuel reserve'', confidence = 5 / 10,
            notes = ''Positive evidence appears near negations/contradictions''\<rparr>"
proof -
  have a: "find_all py_re (rx_compile ''(fuel reserve)'')
     ''fuel reserve ok. There is no fuel reserve.'' = [(0, 12), (29, 41)]"
    by code_simp
  have b: "evaluate_rule_semantic py_re no_fuel_twice_rule
        ''fuel reserve ok. There is no fuel reserve.'' None =
       Inr \<lparr>decision = REVIEW,
            matched_positive = [''fuel reserve ok. There is no fuel reserve.''],
            matched_forbidden = [''fuel reserve ok. There is no fuel reserve.''],
            matched_pattern = ''fuel reserve'', confidence = 5 / 10,
            notes = ''Positive evidence appears near negations/contradictions''\<rparr>"
    by code_simp
  from a b show ?thesis by simp
qed

section \<open>Determinism\<close>

lemma sort_set_iter:
  assumes "set_iter_ok E1" and "set_iter_ok E2"
  shows "sort (set_iter E1 xs) = sort (set_iter E2 xs)"
proof (rule properties_for_sort)
  from assms show "mset (sort (set_iter E2 xs)) = mset (set_iter E1 xs)"
    by (simp add: set_iter_ok_def)
  show "sorted (sort (set_iter E2 xs))" by simp
qed

lemma extra_regs_order:
  assumes "set_iter_ok E1" and "set_iter_ok E2"
  shows "extra_regs E1 regs t = extra_regs E2 regs t"
  unfolding extra_regs_def sort_set_iter [OF assms] ..

lemma area_unstated_order:
  "set_iter_ok E1 \<Longrightarrow> set_iter_ok E2 \<Longrightarrow> area_unstated E1 area t = area_unstated E2 area t"
  by (simp add: area_unstated_def list_ex_iff set_iter_ok_set)

lemma align_notes_order:
  assumes "set_iter_ok E1" and "set_iter_ok E2"
  shows "align_notes E1 f t = align_notes E2 f t"
  unfolding align_notes_def area_unstated_order [OF assms] ..

lemma align_extras_order:
  assumes "set_iter_ok E1" and "set_iter_ok E2"
  shows "align_extras E1 f t = align_extras E2 f t"
  unfolding align_extras_def extra_regs_order [OF assms] ..

lemma any_regex_same_library:
  assumes "re_compile E1 = re_compile E2"
  shows "any_regex E1 ps = any_regex E2 ps"
  unfolding any_regex_def assms ..

lemma rule_setup_same_library:
  assumes "re_compile E1 = re_compile E2"
  shows "rule_setup E1 rule = rule_setup E2 rule"
  unfolding rule_setup_def any_regex_same_library [OF assms] ..

lemma find_all_same_library:
  assumes "re_finditer E1 = re_finditer E2"
  shows "find_all E1 re t = find_all E2 re t"
  unfolding find_all_def assms ..

lemma scan_step_same_library:
  assumes "re_search E1 = re_search E2"
  shows "scan_step E1 t neg w = scan_step E2 t neg w"
proof (intro ext)
  fix m st
  show "scan_step E1 t neg w m st = scan_step E2 t neg w m st"
    unfolding scan_step_def window_has_negative_def assms ..
qed

lemma scan_positive_same_library:
  assumes "re_finditer E1 = re_finditer E2" and "re_search E1 = re_search E2"
  shows "scan_positive E1 t pos neg w fs = scan_positive E2 t pos neg w fs"
  unfolding scan_positive_def scan_step_same_library [OF assms(2)]
    find_all_same_library [OF assms(1)] ..

lemma forbidden_snips_same_library:
  assumes "re_finditer E1 = re_finditer E2"
  shows "forbidden_snips E1 su t = forbidden_snips E2 su t"
  unfolding forbidden_snips_def find_all_same_library [OF assms] ..

lemma semantic_steps_same:
  assumes "set_iter_ok E1" and "set_iter_ok E2"
    and "re_finditer E1 = re_finditer E2" and "re_search E1 = re_search E2"
  shows "semantic_steps E1 su rf t runf = semantic_steps E2 su rf t runf"
  unfolding semantic_steps_def forbidden_snips_same_library [OF assms(3)]
    scan_positive_same_library [OF assms(3,4)]
    align_notes_order [OF assms(1,2)] align_extras_order [OF assms(1,2)] ..

text \<open>
  C8. Evaluation reads the rule, the text and the facts and writes nothing but its own
  local lists, so the model is a function of its arguments and of the interpreter.
  What may differ between two evaluations of the source is the order in which the two
  sets built during alignment are iterated (it depends on the hash seed of the
  process). The result does not depend on it: two interpreters with the same
  regular-expression library, each iterating a set in some order of its own, give
  the same outcome (decision, snippets, matched pattern, confidence and notes) or the
  same exception.
\<close>

theorem evaluation_deterministic:
  assumes "set_iter_ok E1" and "set_iter_ok E2"
    and "re_compile E1 = re_compile E2"
    and "re_finditer E1 = re_finditer E2"
    and "re_search E1 = re_search E2"
  shows "evaluate_rule_semantic E1 rule doc_text run_facts =
         evaluate_rule_semantic E2 rule doc_text run_facts"
  unfolding evaluate_rule_semantic_def rule_setup_same_library [OF assms(3)]
    semantic_steps_same [OF assms(1,2,4,5)] ..

text \<open>An instance: a text with two extra registrations, found in one order and
  iterated in two different orders, is reported in sorted order both times.\<close>

theorem evaluation_deterministic_witness:
  "set_iter_ok py_re
   \<and> set_iter_ok (py_re\<lparr>set_iter := \<lambda>xs. rev (remdups xs)\<rparr>)
   \<and> set_iter py_re (find_reg_codes ''4X-ZZZ and 4X-AAA'') = [''4X-ZZZ'', ''4X-AAA'']
   \<and> set_iter (py_re\<lparr>set_iter := \<lambda>xs. rev (remdups xs)\<rparr>)
        (find_reg_codes ''4X-ZZZ and 4X-AAA'') = [''4X-AAA'', ''4X-ZZZ'']
   \<and> evaluate_rule_semantic py_re fleet_rule ''4X-ZZZ and 4X-AAA'' None =
       Inr \<lparr>decision = CONFLICT, matched_positive = [],
            matched_forbidden = [''Extra reg in manuals: 4X-AAA'',
                                 ''Extra reg in manuals: 4X-ZZZ''],
            matched_pattern = [], confidence = 9 / 10,
            notes = ''Missing registrations in manuals: 4X-BHS''\<rparr>
   \<and> evaluate_rule_semantic (py_re\<lparr>set_iter := \<lambda>xs. rev (remdups xs)\<rparr>) fleet_rule
        ''4X-ZZZ and 4X-AAA'' None =
       evaluate_rule_semantic py_re fleet_rule ''4X-ZZZ and 4X-AAA'' None"
proof -
  let ?E2 = "py_re\<lparr>set_iter := \<lambda>xs. rev (remdups xs)\<rparr>"
  have h1: "set_iter_ok py_re" by (simp add: set_iter_ok_def py_re_def)
  have h2: "set_iter_ok ?E2" by (simp add: set_iter_ok_def)
  have h3: "re_compile ?E2 = re_compile py_re" by simp
  have h4: "re_finditer ?E2 = re_finditer py_re" by simp
  have h5: "re_search ?E2 = re_search py_re" by simp
  have o1: "set_iter py_re (find_reg_codes ''4X-ZZZ and 4X-AAA'') = [''4X-ZZZ'', ''4X-AAA'']"
    by code_simp
  have o2: "set_iter ?E2 (find_reg_codes ''4X-ZZZ and 4X-AAA'') = [''4X-AAA'', ''4X-ZZZ'']"
    by code_simp
  have r: "evaluate_rule_semantic py_re fleet_rule ''4X-ZZZ and 4X-AAA'' None =
       Inr \<lparr>decision = CONFLICT, matched_positive = [],
            matched_forbidden = [''Extra reg in manuals: 4X-AAA'',
                                 ''Extra reg in manuals: 4X-ZZZ''],
            matched_pattern = [], confidence = 9 / 10,
            notes = ''Missing registrations in manuals: 4X-BHS''\<rparr>"
    by code_simp
  from evaluation_deterministic [OF h2 h1 h3 h4 h5, of fleet_rule "''4X-ZZZ and 4X-AAA''" None]
    h1 h2 o1 o2 r
  show ?thesis by simp
qed

section \<open>Malformed rules\<close>











end
